theory Spec2Isabelle
  imports Main
begin

section \<open>JavaScript values\<close>

text \<open>
  The values that flow through \<open>src/index.ts\<close>. Strings are byte strings: a value of type
  \<open>string\<close> stands for the UTF-8 bytes of a well-formed JavaScript string. Numbers are the
  integer-valued ones (\<open>truncation_limit\<close>, identifiers, HTTP status codes), rendered in
  decimal as \<open>String\<close> renders them below \<open>10^21\<close>; fractions, \<open>NaN\<close> and the infinities are
  outside the model. An object is the list of its own properties in creation order, with
  distinct keys.
\<close>

datatype jsval =
    JUndefined
  | JNull
  | JBool bool
  | JNum int
  | JStr string
  | JArr "jsval list"
  | JObj "(string \<times> jsval) list"

type_synonym jsobject = "(string \<times> jsval) list"

text \<open>\<open>ToBoolean\<close>: what \<open>!x\<close>, \<open>x ? a : b\<close> and \<open>x || y\<close> test.\<close>

fun truthy :: "jsval \<Rightarrow> bool" where
  "truthy JUndefined = False"
| "truthy JNull = False"
| "truthy (JBool b) = b"
| "truthy (JNum n) = (n \<noteq> 0)"
| "truthy (JStr s) = (s \<noteq> [])"
| "truthy (JArr xs) = True"
| "truthy (JObj ps) = True"

text \<open>\<open>a || b\<close>\<close>

definition js_or :: "jsval \<Rightarrow> jsval \<Rightarrow> jsval" where
  "js_or a b = (if truthy a then a else b)"

text \<open>\<open>obj.k\<close> on a plain object: \<open>undefined\<close> when the key is absent.\<close>

definition get_prop :: "jsobject \<Rightarrow> string \<Rightarrow> jsval" where
  "get_prop obj k = (case map_of obj k of None \<Rightarrow> JUndefined | Some v \<Rightarrow> v)"

text \<open>\<open>obj.k = v\<close>: an existing key keeps its place, a new key goes last.\<close>

fun set_prop :: "jsobject \<Rightarrow> string \<Rightarrow> jsval \<Rightarrow> jsobject" where
  "set_prop [] k v = [(k, v)]"
| "set_prop ((k', v') # ps) k v = (if k' = k then (k, v) # ps else (k', v') # set_prop ps k v)"

subsection \<open>Strings and numbers\<close>

function digits :: "int \<Rightarrow> string" where
  "digits n =
     (if n < 10 then [''0123456789'' ! nat n]
      else digits (n div 10) @ [''0123456789'' ! nat (n mod 10)])"
  by pat_completeness auto
termination
  by (relation "measure nat") auto

definition number_to_string :: "int \<Rightarrow> string" where
  "number_to_string i = (if i < 0 then CHR ''-'' # digits (- i) else digits i)"

text \<open>\<open>Array.prototype.join\<close> on strings.\<close>

fun join :: "string \<Rightarrow> string list \<Rightarrow> string" where
  "join sep [] = []"
| "join sep [x] = x"
| "join sep (x # y # ys) = x @ sep @ join sep (y # ys)"

text \<open>\<open>String(value)\<close>, which template literals apply as well.\<close>

fun String_js :: "jsval \<Rightarrow> string" where
  "String_js JUndefined = ''undefined''"
| "String_js JNull = ''null''"
| "String_js (JBool b) = (if b then ''true'' else ''false'')"
| "String_js (JNum n) = number_to_string n"
| "String_js (JStr s) = s"
| "String_js (JArr xs) =
     join '','' (map (\<lambda>x. if x = JUndefined \<or> x = JNull then [] else String_js x) xs)"
| "String_js (JObj ps) = ''[object Object]''"

subsection \<open>Property enumeration order\<close>

text \<open>
  \<open>Object.entries\<close> and \<open>JSON.stringify\<close> enumerate own properties in the order of
  \<open>OrdinaryOwnPropertyKeys\<close>: the keys that are array indices (canonical decimal numerals
  below \<open>2^32 - 1\<close>) first, in ascending numeric order, then every other string key in
  creation order.
\<close>

definition isDigit :: "char \<Rightarrow> bool" where
  "isDigit c \<longleftrightarrow> c \<in> set ''0123456789''"

definition digitsValue :: "string \<Rightarrow> int" where
  "digitsValue k = foldl (\<lambda>a c. 10 * a + (of_char c - 48)) 0 k"

definition isArrayIndex :: "string \<Rightarrow> bool" where
  "isArrayIndex k \<longleftrightarrow>
     k \<noteq> [] \<and> list_all isDigit k \<and> (k = ''0'' \<or> hd k \<noteq> CHR ''0'') \<and> digitsValue k < 4294967295"

definition Object_entries :: "jsobject \<Rightarrow> (string \<times> jsval) list" where
  "Object_entries ps =
     sort_key (\<lambda>(k, v). digitsValue k) (filter (\<lambda>(k, v). isArrayIndex k) ps)
     @ filter (\<lambda>(k, v). \<not> isArrayIndex k) ps"

section \<open>Form encoder\<close>

text \<open>
  \<open>encodeURIComponent\<close> on UTF-8 bytes: the unreserved characters
  \<open>A-Z a-z 0-9 - _ . ! ~ * ' ( )\<close> stay, every other byte becomes \<open>%XX\<close> in upper-case hex.
\<close>

definition uriUnreserved :: "char \<Rightarrow> bool" where
  "uriUnreserved c \<longleftrightarrow>
     c \<in> set (''ABCDEFGHIJKLMNOPQRSTUVWXYZabcdefghijklmnopqrstuvwxyz0123456789-_.!~*()''
              @ [CHR 0x27])"

definition percentByte :: "char \<Rightarrow> string" where
  "percentByte c =
     (let n = (of_char c :: nat)
      in [CHR ''%'', ''0123456789ABCDEF'' ! (n div 16), ''0123456789ABCDEF'' ! (n mod 16)])"

definition encodeURIComponent :: "string \<Rightarrow> string" where
  "encodeURIComponent s = concat (map (\<lambda>c. if uriUnreserved c then [c] else percentByte c) s)"

text \<open>
  \<^verbatim>\<open>
  function buildFormData(params) {
    const entries = Object.entries(params)
      .filter(([_, value]) => value !== undefined && value !== "")
      .map(([key, value]) => `${encodeURIComponent(key)}=${encodeURIComponent(String(value))}`);
    return entries.join("&");
  }
  \<close>
\<close>

definition buildFormData :: "jsobject \<Rightarrow> string" where
  "buildFormData params =
     join ''&''
       (map (\<lambda>(key, value). encodeURIComponent key @ ''='' @ encodeURIComponent (String_js value))
          (filter (\<lambda>(_, value). value \<noteq> JUndefined \<and> value \<noteq> JStr [])
             (Object_entries params)))"

text \<open>
  The encoder as the specification words it, over a list of entries taken in the order
  given: drop an entry whose value is \<open>undefined\<close> or \<open>""\<close>, render every other entry as
  \<open>percentEncode(key) + "=" + percentEncode(String(value))\<close>, put \<open>&\<close> between the renderings.
\<close>

fun spec_render :: "(string \<times> jsval) list \<Rightarrow> string list" where
  "spec_render [] = []"
| "spec_render ((k, v) # ps) =
     (if v = JUndefined \<or> v = JStr [] then spec_render ps
      else (encodeURIComponent k @ ''='' @ encodeURIComponent (String_js v)) # spec_render ps)"

fun spec_joined :: "string list \<Rightarrow> string" where
  "spec_joined [] = []"
| "spec_joined (r # rs) = r @ concat (map (\<lambda>x. CHR ''&'' # x) rs)"

definition spec_formEncode :: "(string \<times> jsval) list \<Rightarrow> string" where
  "spec_formEncode ps = spec_joined (spec_render ps)"

section \<open>JSON.stringify\<close>

definition hexByteLower :: "nat \<Rightarrow> string" where
  "hexByteLower n = [''0123456789abcdef'' ! (n div 16), ''0123456789abcdef'' ! (n mod 16)]"

text \<open>\<open>QuoteJSONString\<close>: the quote \<open>0x22\<close>, the backslash \<open>0x5C\<close> and the control bytes are escaped.\<close>

definition jsonEscape :: "char \<Rightarrow> string" where
  "jsonEscape c =
     (if c = CHR 0x22 then [CHR 0x5C, CHR 0x22]
      else if c = CHR 0x5C then [CHR 0x5C, CHR 0x5C]
      else if c = CHR 0x08 then [CHR 0x5C, CHR ''b'']
      else if c = CHR 0x0C then [CHR 0x5C, CHR ''f'']
      else if c = CHR 0x0A then [CHR 0x5C, CHR ''n'']
      else if c = CHR 0x0D then [CHR 0x5C, CHR ''r'']
      else if c = CHR 0x09 then [CHR 0x5C, CHR ''t'']
      else if (of_char c :: nat) < 32
        then [CHR 0x5C, CHR ''u'', CHR ''0'', CHR ''0''] @ hexByteLower (of_char c)
      else [c])"

definition QuoteJSONString :: "string \<Rightarrow> string" where
  "QuoteJSONString s = CHR 0x22 # concat (map jsonEscape s) @ [CHR 0x22]"

text \<open>
  The brackets around the serialized members: nothing between them when there is no
  member, commas when the gap is empty, otherwise one member per line, indented.
\<close>

definition wrapJSON :: "string \<Rightarrow> string \<Rightarrow> string \<Rightarrow> string \<Rightarrow> string list \<Rightarrow> string" where
  "wrapJSON l r gap stepback partial =
     (if partial = [] then l @ r
      else if gap = [] then l @ join '','' partial @ r
      else l @ [CHR 0x0A] @ (stepback @ gap)
           @ join ('','' @ [CHR 0x0A] @ (stepback @ gap)) partial
           @ [CHR 0x0A] @ stepback @ r)"

text \<open>
  \<open>SerializeJSONProperty\<close>: \<open>None\<close> is the result \<open>undefined\<close>. An \<open>undefined\<close> array
  element is written \<open>null\<close>, an \<open>undefined\<close> property is left out.
\<close>

function SerializeJSONProperty :: "string \<Rightarrow> string \<Rightarrow> jsval \<Rightarrow> string option" where
  "SerializeJSONProperty gap indent JUndefined = None"
| "SerializeJSONProperty gap indent JNull = Some ''null''"
| "SerializeJSONProperty gap indent (JBool b) = Some (if b then ''true'' else ''false'')"
| "SerializeJSONProperty gap indent (JNum n) = Some (number_to_string n)"
| "SerializeJSONProperty gap indent (JStr s) = Some (QuoteJSONString s)"
| "SerializeJSONProperty gap indent (JArr xs) =
     Some (wrapJSON ''['' '']'' gap indent
       (map (\<lambda>x. case SerializeJSONProperty gap (indent @ gap) x of
                    None \<Rightarrow> ''null'' | Some s \<Rightarrow> s) xs))"
| "SerializeJSONProperty gap indent (JObj ps) =
     Some (wrapJSON ''{'' ''}'' gap indent
       (concat (map (\<lambda>(k, v). case SerializeJSONProperty gap (indent @ gap) v of
                    None \<Rightarrow> []
                  | Some s \<Rightarrow> [QuoteJSONString k @ '':'' @ (if gap = [] then [] else '' '') @ s])
          (Object_entries ps))))"
  by pat_completeness auto
termination
proof (relation "measure (\<lambda>(gap, indent, v). size v)", goal_cases)
  case 1
  show ?case by simp
next
  case (2 gap indent xs x)
  then show ?case by (simp add: size_list_estimation' less_Suc_eq_le)
next
  case (3 gap indent ps p k v)
  then have "(k, v) \<in> set ps" by (auto simp: Object_entries_def)
  then have "size_prod (\<lambda>_. 0) size (k, v) \<le> size_list (size_prod (\<lambda>_. 0) size) ps"
    by (rule size_list_estimation') simp
  then show ?case by simp
qed

text \<open>\<open>JSON.stringify(v)\<close> and \<open>JSON.stringify(v, null, 2)\<close>.\<close>

definition JSON_stringify :: "jsval \<Rightarrow> string option" where
  "JSON_stringify v = SerializeJSONProperty [] [] v"

definition JSON_stringify_2 :: "jsval \<Rightarrow> string option" where
  "JSON_stringify_2 v = SerializeJSONProperty ''  '' [] v"

section \<open>JSON.parse\<close>

text \<open>
  Whether \<open>JSON.parse\<close> accepts a text. A value is a string, a number, one of \<open>true\<close>,
  \<open>false\<close>, \<open>null\<close>, an array or an object; white space is space, tab, line feed and
  carriage return. Each function returns what is left of the text after the part it
  recognised, or \<open>None\<close>.
\<close>

definition isJSONSpace :: "char \<Rightarrow> bool" where
  "isJSONSpace c \<longleftrightarrow> c \<in> set [CHR 0x20, CHR 0x09, CHR 0x0A, CHR 0x0D]"

definition isHexDigit :: "char \<Rightarrow> bool" where
  "isHexDigit c \<longleftrightarrow> c \<in> set ''0123456789abcdefABCDEF''"

text \<open>A string, after its opening quote.\<close>

function json_string_tail :: "string \<Rightarrow> string option" where
  "json_string_tail [] = None"
| "json_string_tail (c # cs) =
     (if c = CHR 0x22 then Some cs
      else if c = CHR 0x5C then
        (case cs of
           [] \<Rightarrow> None
         | e # es \<Rightarrow>
             if e \<in> set ([CHR 0x22, CHR 0x5C] @ ''/bfnrt'') then json_string_tail es
             else if e = CHR ''u'' \<and> 4 \<le> length es \<and> list_all isHexDigit (take 4 es)
               then json_string_tail (drop 4 es)
             else None)
      else if (of_char c :: nat) < 32 then None
      else json_string_tail cs)"
  by pat_completeness auto
termination
  by (relation "measure length") auto

text \<open>A number: \<open>-? (0 | [1-9][0-9]*) (. [0-9]+)? ([eE] [+-]? [0-9]+)?\<close>\<close>

definition json_fraction :: "string \<Rightarrow> string option" where
  "json_fraction s =
     (case s of
        [] \<Rightarrow> Some s
      | c # r \<Rightarrow>
          if c = CHR ''.'' then (if takeWhile isDigit r = [] then None else Some (dropWhile isDigit r))
          else Some s)"

definition json_exponent :: "string \<Rightarrow> string option" where
  "json_exponent s =
     (case s of
        [] \<Rightarrow> Some s
      | c # r \<Rightarrow>
          if c = CHR ''e'' \<or> c = CHR ''E'' then
            (let r' = (case r of
                         [] \<Rightarrow> r
                       | g # t \<Rightarrow> if g = CHR ''+'' \<or> g = CHR ''-'' then t else r)
             in if takeWhile isDigit r' = [] then None else Some (dropWhile isDigit r'))
          else Some s)"

definition json_number :: "string \<Rightarrow> string option" where
  "json_number s =
     (case (case s of [] \<Rightarrow> s | c # r \<Rightarrow> if c = CHR ''-'' then r else s) of
        [] \<Rightarrow> None
      | d # r \<Rightarrow>
          if \<not> isDigit d then None
          else (case json_fraction (if d = CHR ''0'' then r else dropWhile isDigit r) of
                  None \<Rightarrow> None
                | Some r' \<Rightarrow> json_exponent r'))"

text \<open>
  Values, the elements of an array after \<open>[\<close> and the members of an object after \<open>{\<close>.
  The first argument bounds the depth of the calls; every call takes at least one
  character off the text, so twice the length of the text is never used up.
\<close>

fun json_value :: "nat \<Rightarrow> string \<Rightarrow> string option"
  and json_elements :: "nat \<Rightarrow> string \<Rightarrow> string option"
  and json_members :: "nat \<Rightarrow> string \<Rightarrow> string option" where
  "json_value 0 s = None"
| "json_value (Suc n) s =
     (case dropWhile isJSONSpace s of
        [] \<Rightarrow> None
      | c # r \<Rightarrow>
          if c = CHR 0x22 then json_string_tail r
          else if c = CHR ''['' then
            (case dropWhile isJSONSpace r of
               [] \<Rightarrow> None
             | d # r' \<Rightarrow> if d = CHR '']'' then Some r' else json_elements n r)
          else if c = CHR ''{'' then
            (case dropWhile isJSONSpace r of
               [] \<Rightarrow> None
             | d # r' \<Rightarrow> if d = CHR ''}'' then Some r' else json_members n r)
          else if take 4 (c # r) = ''true'' then Some (drop 4 (c # r))
          else if take 5 (c # r) = ''false'' then Some (drop 5 (c # r))
          else if take 4 (c # r) = ''null'' then Some (drop 4 (c # r))
          else if c = CHR ''-'' \<or> isDigit c then json_number (c # r)
          else None)"
| "json_elements 0 s = None"
| "json_elements (Suc n) s =
     (case json_value n s of
        None \<Rightarrow> None
      | Some r \<Rightarrow>
          (case dropWhile isJSONSpace r of
             [] \<Rightarrow> None
           | c # r' \<Rightarrow>
               if c = CHR '','' then json_elements n r'
               else if c = CHR '']'' then Some r'
               else None))"
| "json_members 0 s = None"
| "json_members (Suc n) s =
     (case dropWhile isJSONSpace s of
        [] \<Rightarrow> None
      | q # r \<Rightarrow>
          if q \<noteq> CHR 0x22 then None
          else
            (case json_string_tail r of
               None \<Rightarrow> None
             | Some r1 \<Rightarrow>
                 (case dropWhile isJSONSpace r1 of
                    [] \<Rightarrow> None
                  | c # r2 \<Rightarrow>
                      if c \<noteq> CHR '':'' then None
                      else
                        (case json_value n r2 of
                           None \<Rightarrow> None
                         | Some r3 \<Rightarrow>
                             (case dropWhile isJSONSpace r3 of
                                [] \<Rightarrow> None
                              | d # r4 \<Rightarrow>
                                  if d = CHR '','' then json_members n r4
                                  else if d = CHR ''}'' then Some r4
                                  else None)))))"

definition JSON_parse_accepts :: "string \<Rightarrow> bool" where
  "JSON_parse_accepts s =
     (case json_value (2 * length s + 2) s of
        None \<Rightarrow> False
      | Some r \<Rightarrow> list_all isJSONSpace r)"

section \<open>Error classifier\<close>

text \<open>The part of an axios response that the program reads.\<close>

record response =
  status :: int
  statusText :: string
  data :: jsval
  headers :: jsobject

text \<open>
  What a \<open>catch\<close> can receive: an \<open>AxiosError\<close> with its optional \<open>response\<close>, optional
  \<open>code\<close> and \<open>message\<close>; any other \<open>Error\<close> object with its \<open>name\<close> and \<open>message\<close>; or a
  thrown value that is no error object.
\<close>

datatype failure =
    AxiosError "response option" "string option" string
  | JsError string string
  | Thrown jsval

text \<open>\<open>Error.prototype.toString\<close>\<close>

definition errorToString :: "string \<Rightarrow> string \<Rightarrow> string" where
  "errorToString name msg =
     (if name = [] then msg else if msg = [] then name else name @ '': '' @ msg)"

text \<open>\<open>String(error)\<close>\<close>

fun String_error :: "failure \<Rightarrow> string" where
  "String_error (AxiosError r c m) = errorToString ''AxiosError'' m"
| "String_error (JsError n m) = errorToString n m"
| "String_error (Thrown v) = String_js v"

text \<open>
  \<^verbatim>\<open>
  function handleApiError(error: unknown): string {
    if (error instanceof AxiosError) {
      if (error.response) {
        return `API Error: ${error.response.status} - ${error.response.statusText}. ${JSON.stringify(error.response.data)}`;
      }
      if (error.code === "ECONNREFUSED") {
        return "Connection refused. Check your QUALYS_API_URL configuration.";
      }
      return `Request Error: ${error.message}`;
    }
    return `Unknown Error: ${String(error)}`;
  }
  \<close>
\<close>

fun handleApiError :: "failure \<Rightarrow> string" where
  "handleApiError (AxiosError (Some r) code msg) =
     ''API Error: '' @ number_to_string (status r) @ '' - '' @ statusText r @ ''. ''
       @ (case JSON_stringify (data r) of None \<Rightarrow> ''undefined'' | Some s \<Rightarrow> s)"
| "handleApiError (AxiosError None code msg) =
     (if code = Some ''ECONNREFUSED''
      then ''Connection refused. Check your QUALYS_API_URL configuration.''
      else ''Request Error: '' @ msg)"
| "handleApiError e = ''Unknown Error: '' @ String_error e"

section \<open>Configuration and process state\<close>

text \<open>
  The three module constants, as read from the environment at load time:
  \<open>process.env.X || fallback\<close> takes the fallback for an unset or empty variable.
\<close>

record config =
  QUALYS_API_URL :: string
  QUALYS_USERNAME :: string
  QUALYS_PASSWORD :: string

definition env_or :: "string option \<Rightarrow> string \<Rightarrow> string" where
  "env_or v fallback = (case v of None \<Rightarrow> fallback | Some s \<Rightarrow> if s = [] then fallback else s)"

definition load_config :: "(string \<Rightarrow> string option) \<Rightarrow> config" where
  "load_config env =
     \<lparr> QUALYS_API_URL = env_or (env ''QUALYS_API_URL'') ''https://qualysapi.qualys.com'',
       QUALYS_USERNAME = env_or (env ''QUALYS_USERNAME'') [],
       QUALYS_PASSWORD = env_or (env ''QUALYS_PASSWORD'') [] \<rparr>"

definition RATE_LIMIT_DELAY_MS :: int where
  "RATE_LIMIT_DELAY_MS = 1000"

record agent =
  keepAlive :: bool
  keepAliveMsecs :: int
  maxSockets :: int
  maxFreeSockets :: int

definition httpAgent :: agent where
  "httpAgent = \<lparr> keepAlive = True, keepAliveMsecs = 30000, maxSockets = 10, maxFreeSockets = 5 \<rparr>"

definition httpsAgent :: agent where
  "httpsAgent = \<lparr> keepAlive = True, keepAliveMsecs = 30000, maxSockets = 10, maxFreeSockets = 5 \<rparr>"

text \<open>The argument of \<open>axios.create\<close>, which is all the program knows of the client.\<close>

record client =
  baseURL :: string
  defaultHeaders :: "(string \<times> string) list"
  timeout :: int
  clientHttpAgent :: agent
  clientHttpsAgent :: agent

text \<open>One \<open>client.post(path, body, options)\<close>.\<close>

record request =
  path :: string
  body :: string
  contentType :: "string option"
  responseType :: "string option"

text \<open>What the client puts on the wire for one request: the path, the content type and the body.\<close>

record transmitted =
  wirePath :: string
  wireContentType :: string
  wireBody :: string

text \<open>
  The module's variables \<open>apiClient\<close>, \<open>cachedAuthHeader\<close> and \<open>lastRequestTime\<close>, the
  clock that \<open>Date.now()\<close> reads, and a record of the effects: the requests handed to the
  client (\<open>sent\<close>), what the client transmitted for them (\<open>wire\<close>), the number of
  \<open>axios.create\<close> calls and the number of Base64 digests computed.
\<close>

record world =
  apiClient :: "client option"
  cachedAuthHeader :: "string option"
  lastRequestTime :: int
  now :: int
  sent :: "request list"
  wire :: "transmitted list"
  created :: nat
  digests :: nat

text \<open>The state at process start, at clock reading \<open>t\<close>.\<close>

definition initial_world :: "int \<Rightarrow> world" where
  "initial_world t =
     \<lparr> apiClient = None, cachedAuthHeader = None, lastRequestTime = 0, now = t,
       sent = [], wire = [], created = 0, digests = 0 \<rparr>"

section \<open>Connection manager\<close>

text \<open>\<open>Buffer.from(s).toString("base64")\<close> on the bytes of \<open>s\<close>.\<close>

definition b64 :: "nat \<Rightarrow> char" where
  "b64 n = ''ABCDEFGHIJKLMNOPQRSTUVWXYZabcdefghijklmnopqrstuvwxyz0123456789+/'' ! n"

fun base64 :: "string \<Rightarrow> string" where
  "base64 [] = []"
| "base64 [a] =
     (let x = (of_char a :: nat)
      in [b64 (x div 4), b64 ((x mod 4) * 16), CHR ''='', CHR ''=''])"
| "base64 [a, b] =
     (let x = (of_char a :: nat); y = (of_char b :: nat)
      in [b64 (x div 4), b64 ((x mod 4) * 16 + y div 16), b64 ((y mod 16) * 4), CHR ''=''])"
| "base64 (a # b # c # rest) =
     (let x = (of_char a :: nat); y = (of_char b :: nat); z = (of_char c :: nat)
      in [b64 (x div 4), b64 ((x mod 4) * 16 + y div 16), b64 ((y mod 16) * 4 + z div 64),
          b64 (z mod 64)] @ base64 rest)"

text \<open>
  \<^verbatim>\<open>
  function getApiClient(): AxiosInstance {
    if (apiClient) { return apiClient; }
    if (!cachedAuthHeader && QUALYS_USERNAME && QUALYS_PASSWORD) {
      cachedAuthHeader = `Basic ${Buffer.from(`${QUALYS_USERNAME}:${QUALYS_PASSWORD}`).toString("base64")}`;
    }
    apiClient = axios.create({ baseURL: QUALYS_API_URL,
      headers: { "Authorization": cachedAuthHeader || "", "X-Requested-With": "qualys-mcp",
                 "Content-Type": "application/x-www-form-urlencoded" },
      timeout: 120000, httpAgent, httpsAgent });
    return apiClient;
  }
  \<close>
  The configuration is an argument of the model, so that a call can be made under other
  values than the first one saw.
\<close>

definition getApiClient :: "config \<Rightarrow> world \<Rightarrow> client \<times> world" where
  "getApiClient cfg w =
     (case apiClient w of
        Some c \<Rightarrow> (c, w)
      | None \<Rightarrow>
          (let w1 =
                 (if (cachedAuthHeader w = None \<or> cachedAuthHeader w = Some [])
                       \<and> QUALYS_USERNAME cfg \<noteq> [] \<and> QUALYS_PASSWORD cfg \<noteq> []
                  then w\<lparr> cachedAuthHeader :=
                             Some (''Basic '' @ base64 (QUALYS_USERNAME cfg @ '':'' @ QUALYS_PASSWORD cfg)),
                           digests := Suc (digests w) \<rparr>
                  else w);
               c = \<lparr> baseURL = QUALYS_API_URL cfg,
                     defaultHeaders =
                       [(''Authorization'', (case cachedAuthHeader w1 of None \<Rightarrow> [] | Some h \<Rightarrow> h)),
                        (''X-Requested-With'', ''qualys-mcp''),
                        (''Content-Type'', ''application/x-www-form-urlencoded'')],
                     timeout = 120000,
                     clientHttpAgent = httpAgent,
                     clientHttpsAgent = httpsAgent \<rparr>
           in (c, w1\<lparr> apiClient := Some c, created := Suc (created w1) \<rparr>)))"

text \<open>A run of calls, each under its own configuration; the handles returned, in order.\<close>

fun getApiClient_calls :: "config list \<Rightarrow> world \<Rightarrow> client list \<times> world" where
  "getApiClient_calls [] w = ([], w)"
| "getApiClient_calls (cfg # cfgs) w =
     (case getApiClient cfg w of
        (c, w') \<Rightarrow> (case getApiClient_calls cfgs w' of (cs, w'') \<Rightarrow> (c # cs, w'')))"

section \<open>Rate limiter\<close>

text \<open>
  \<^verbatim>\<open>
  async function rateLimitedRequest<T>(fn: () => Promise<T>): Promise<T> {
    const now = Date.now();
    const timeSinceLastRequest = now - lastRequestTime;
    if (timeSinceLastRequest < RATE_LIMIT_DELAY_MS) {
      await new Promise(resolve => setTimeout(resolve, RATE_LIMIT_DELAY_MS - timeSinceLastRequest));
    }
    lastRequestTime = Date.now();
    return fn();
  }
  \<close>
  The part before the \<open>await\<close>: the delay asked of \<open>setTimeout\<close>, if any.
\<close>

definition rateLimitDelay :: "int \<Rightarrow> int \<Rightarrow> int option" where
  "rateLimitDelay t lastTime =
     (let timeSinceLastRequest = t - lastTime
      in if timeSinceLastRequest < RATE_LIMIT_DELAY_MS
         then Some (RATE_LIMIT_DELAY_MS - timeSinceLastRequest) else None)"

text \<open>
  One call that runs alone: nothing else runs during the wait, the timer fires when it
  is due, and synchronous code takes no time on the clock.
\<close>

definition rateLimitedRequest :: "(world \<Rightarrow> 'a \<times> world) \<Rightarrow> world \<Rightarrow> 'a \<times> world" where
  "rateLimitedRequest fn w =
     (let w1 = (case rateLimitDelay (now w) (lastRequestTime w) of
                  Some d \<Rightarrow> w\<lparr> now := now w + d \<rparr>
                | None \<Rightarrow> w);
          w2 = w1\<lparr> lastRequestTime := now w1 \<rparr>
      in fn w2)"

subsection \<open>Calls that overlap\<close>

text \<open>
  The request handler registered in \<open>main\<close> is an \<open>async\<close> function, and nothing makes a
  tool call wait for the one before it: a second call enters \<open>rateLimitedRequest\<close> while the
  first is suspended at its \<open>await\<close>. The event loop runs one piece of synchronous code at
  a time, so a run is a sequence of events in clock order: \<open>Call c t\<close>, caller \<open>c\<close> enters
  at clock reading \<open>t\<close> and runs up to its \<open>await\<close> (or through to \<open>fn()\<close> when there is no
  wait); \<open>Wake c t\<close>, the timer of caller \<open>c\<close> fires at \<open>t\<close>, not before it is due, and the
  caller runs from the \<open>await\<close> through to \<open>fn()\<close>.
\<close>

datatype event = Call nat int | Wake nat int

record loop =
  lastTime :: int
  clock :: int
  waiting :: "(nat \<times> int) list"
  started :: "(nat \<times> int) list"

definition initial_loop :: loop where
  "initial_loop = \<lparr> lastTime = 0, clock = 0, waiting = [], started = [] \<rparr>"

fun step :: "event \<Rightarrow> loop \<Rightarrow> loop option" where
  "step (Call c t) s =
     (if t < clock s then None
      else (case rateLimitDelay t (lastTime s) of
              Some d \<Rightarrow> Some (s\<lparr> clock := t, waiting := waiting s @ [(c, t + d)] \<rparr>)
            | None \<Rightarrow> Some (s\<lparr> clock := t, lastTime := t, started := started s @ [(c, t)] \<rparr>)))"
| "step (Wake c t) s =
     (if t < clock s then None
      else (case map_of (waiting s) c of
              None \<Rightarrow> None
            | Some due \<Rightarrow>
                if t < due then None
                else Some (s\<lparr> clock := t, lastTime := t,
                             waiting := filter (\<lambda>(c', _). c' \<noteq> c) (waiting s),
                             started := started s @ [(c, t)] \<rparr>)))"

fun run :: "event list \<Rightarrow> loop \<Rightarrow> loop option" where
  "run [] s = Some s"
| "run (e # es) s = (case step e s of None \<Rightarrow> None | Some s' \<Rightarrow> run es s')"

text \<open>Every two consecutive start times are at least the minimum delay apart.\<close>

fun spaced :: "int list \<Rightarrow> bool" where
  "spaced (a # b # ts) = (RATE_LIMIT_DELAY_MS \<le> b - a \<and> spaced (b # ts))"
| "spaced ts = True"

section \<open>Response normalizer\<close>

text \<open>
  \<^verbatim>\<open>
  async function parseXmlResponse(xml: string): Promise<unknown> {
    try {
      return await parseStringPromise(xml, { explicitArray: false, ignoreAttrs: false, mergeAttrs: true });
    } catch (error) {
      return { raw: xml };
    }
  }
  \<close>
  \<open>parseStringPromise\<close> is the parser of the library \<open>xml2js\<close> under the three options
  above; it is an argument of the model, \<open>Inl\<close> being a rejected promise. The argument
  \<open>xml\<close> is whatever \<open>response.data\<close> holds.
\<close>

definition parseXmlResponse :: "(jsval \<Rightarrow> failure + jsval) \<Rightarrow> jsval \<Rightarrow> jsval" where
  "parseXmlResponse parseStringPromise xml =
     (case parseStringPromise xml of
        Inr parsed \<Rightarrow> parsed
      | Inl error \<Rightarrow> JObj [(''raw'', xml)])"


subsection \<open>The parser on the markup that is modelled\<close>












section \<open>Dispatcher\<close>

text \<open>
  What the dispatcher calls outside the program: the XML parser, the remote service
  behind \<open>client.post\<close> (\<open>Inl\<close> is a rejected promise), and the \<open>Date\<close> arithmetic of the
  knowledge-base search, which turns the clock reading and a number of days into the
  date part of an ISO timestamp.
\<close>

record services =
  parseStringPromise :: "jsval \<Rightarrow> failure + jsval"
  post :: "client \<Rightarrow> request \<Rightarrow> failure + response"
  isoDateDaysAgo :: "int \<Rightarrow> jsval \<Rightarrow> failure + string"

text \<open>
  \<^verbatim>\<open>
  function checkCredentials(): string | null {
    if (!QUALYS_USERNAME || !QUALYS_PASSWORD) { return "Qualys credentials not configured. ..."; }
    return null;
  }
  \<close>
\<close>

definition checkCredentials :: "config \<Rightarrow> string option" where
  "checkCredentials cfg =
     (if QUALYS_USERNAME cfg = [] \<or> QUALYS_PASSWORD cfg = []
      then Some (''Qualys credentials not configured. Please set the following environment variables:''
                 @ [CHR 0x0A] @ ''  - QUALYS_USERNAME: Your Qualys username''
                 @ [CHR 0x0A] @ ''  - QUALYS_PASSWORD: Your Qualys password''
                 @ [CHR 0x0A] @ ''  - QUALYS_API_URL: (optional) Your Qualys API URL (defaults to https://qualysapi.qualys.com)'')
      else None)"

subsection \<open>The request on the wire\<close>

text \<open>
  The default \<open>transformRequest\<close> of axios, on a string payload: under a content type that
  contains \<open>application/json\<close> the payload goes through \<open>stringifySafely\<close>, which sends a
  string that \<open>JSON.parse\<close> accepts trimmed and any other string as
  \<open>JSON.stringify(payload)\<close>; under any other content type the string goes out as it is.
\<close>

definition trim :: "string \<Rightarrow> string" where
  "trim s = rev (dropWhile isJSONSpace (rev (dropWhile isJSONSpace s)))"

definition stringifySafely :: "string \<Rightarrow> string" where
  "stringifySafely rawValue =
     (if JSON_parse_accepts rawValue then trim rawValue else QuoteJSONString rawValue)"

text \<open>\<open>contentType.indexOf(sub) > -1\<close>\<close>

fun str_includes :: "string \<Rightarrow> string \<Rightarrow> bool" where
  "str_includes sub [] = (sub = [])"
| "str_includes sub (c # cs) = (take (length sub) (c # cs) = sub \<or> str_includes sub cs)"

definition transformRequest :: "string \<Rightarrow> string \<Rightarrow> string" where
  "transformRequest ct payload =
     (if str_includes ''application/json'' ct then stringifySafely payload else payload)"

text \<open>
  The content type of a request is the one its options give, else the default of the
  client, else the form content type that axios gives a \<open>post\<close>.
\<close>

definition transmit :: "client \<Rightarrow> request \<Rightarrow> transmitted" where
  "transmit c req =
     (let ct = (case contentType req of
                  Some t \<Rightarrow> t
                | None \<Rightarrow>
                    (case map_of (defaultHeaders c) ''Content-Type'' of
                       Some t \<Rightarrow> t
                     | None \<Rightarrow> ''application/x-www-form-urlencoded''))
      in \<lparr> wirePath = path req, wireContentType = ct, wireBody = transformRequest ct (body req) \<rparr>)"

text \<open>\<open>client.post(path, body, options)\<close>: the request goes out and the service answers.\<close>

definition client_post ::
  "services \<Rightarrow> client \<Rightarrow> request \<Rightarrow> world \<Rightarrow> (failure + response) \<times> world" where
  "client_post svc c req w =
     (post svc c req, w\<lparr> sent := sent w @ [req], wire := wire w @ [transmit c req] \<rparr>)"

text \<open>\<open>await rateLimitedRequest(() => client.post(path, params))\<close>\<close>

definition postForm ::
  "services \<Rightarrow> client \<Rightarrow> string \<Rightarrow> string \<Rightarrow> world \<Rightarrow> (failure + response) \<times> world" where
  "postForm svc c p params =
     rateLimitedRequest
       (client_post svc c \<lparr> path = p, body = params, contentType = None, responseType = None \<rparr>)"

text \<open>The same, followed by \<open>result = await parseXmlResponse(response.data)\<close>.\<close>

definition postXml ::
  "services \<Rightarrow> client \<Rightarrow> string \<Rightarrow> string \<Rightarrow> world \<Rightarrow> (failure + jsval) \<times> world" where
  "postXml svc c p params w =
     (case postForm svc c p params w of
        (Inl e, w') \<Rightarrow> (Inl e, w')
      | (Inr r, w') \<Rightarrow> (Inr (parseXmlResponse (parseStringPromise svc) (data r)), w'))"

text \<open>\<open>x ? "1" : "0"\<close>\<close>

definition flag :: "jsval \<Rightarrow> jsval" where
  "flag x = JStr (if truthy x then ''1'' else ''0'')"

text \<open>
  \<open>response.data.length\<close>: the byte count of the buffer that \<open>responseType: "arraybuffer"\<close>
  yields (the bytes are held as a \<open>JStr\<close>); reading a property of \<open>undefined\<close> or \<open>null\<close>
  throws.
\<close>

fun data_length :: "jsval \<Rightarrow> failure + jsval" where
  "data_length JUndefined =
     Inl (JsError ''TypeError''
           (''Cannot read properties of undefined (reading '' @ [CHR 0x27] @ ''length'' @ [CHR 0x27] @ '')''))"
| "data_length JNull =
     Inl (JsError ''TypeError''
           (''Cannot read properties of null (reading '' @ [CHR 0x27] @ ''length'' @ [CHR 0x27] @ '')''))"
| "data_length (JStr s) = Inr (JNum (int (length s)))"
| "data_length (JArr xs) = Inr (JNum (int (length xs)))"
| "data_length (JObj ps) = Inr (get_prop ps ''length'')"
| "data_length v = Inr JUndefined"

text \<open>
  The cases of the \<open>switch\<close> in \<open>handleToolCall\<close>, one definition each. A case returns the
  \<open>result\<close> it assigns, or the value it throws, with the state it leaves. An object literal
  keeps its keys in the order written.
\<close>

definition qualys_list_hosts :: "services \<Rightarrow> client \<Rightarrow> jsobject \<Rightarrow> world \<Rightarrow> (failure + jsval) \<times> world" where
  "qualys_list_hosts svc c args w =
     (let params = buildFormData
           [(''action'', JStr ''list''),
            (''ips'', get_prop args ''ips''),
            (''ag_ids'', get_prop args ''ag_ids''),
            (''ag_titles'', get_prop args ''ag_titles''),
            (''truncation_limit'', js_or (get_prop args ''truncation_limit'') (JNum 100)),
            (''details'', js_or (get_prop args ''details'') (JStr ''Basic''))]
      in postXml svc c ''/api/2.0/fo/asset/host/'' params w)"

definition qualys_get_host_detections :: "services \<Rightarrow> client \<Rightarrow> jsobject \<Rightarrow> world \<Rightarrow> (failure + jsval) \<times> world" where
  "qualys_get_host_detections svc c args w =
     (let params = buildFormData
           [(''action'', JStr ''list''),
            (''ips'', get_prop args ''ips''),
            (''ids'', get_prop args ''ids''),
            (''ag_ids'', get_prop args ''ag_ids''),
            (''status'', get_prop args ''status''),
            (''severities'', get_prop args ''severities''),
            (''qids'', get_prop args ''qids''),
            (''truncation_limit'', js_or (get_prop args ''truncation_limit'') (JNum 100)),
            (''show_igs'', flag (get_prop args ''show_igs'')),
            (''include_vuln_type'', get_prop args ''include_vuln_type''),
            (''arf_filter_keys'', get_prop args ''arf_filter_keys''),
            (''show_epss'', flag (get_prop args ''show_epss''))]
      in postXml svc c ''/api/2.0/fo/asset/host/vm/detection/'' params w)"

definition qualys_launch_scan :: "services \<Rightarrow> client \<Rightarrow> jsobject \<Rightarrow> world \<Rightarrow> (failure + jsval) \<times> world" where
  "qualys_launch_scan svc c args w =
     (if \<not> truthy (get_prop args ''scan_title'') then (Inl (JsError ''Error'' ''scan_title is required''), w)
     else if \<not> truthy (get_prop args ''ip'') \<and> \<not> truthy (get_prop args ''asset_groups'')
          \<and> \<not> truthy (get_prop args ''asset_group_ids'')
     then (Inl (JsError ''Error'' ''At least one of ip, asset_groups, or asset_group_ids is required''), w)
     else (let params = buildFormData
           [(''action'', JStr ''launch''),
            (''scan_title'', get_prop args ''scan_title''),
            (''ip'', get_prop args ''ip''),
            (''asset_groups'', get_prop args ''asset_groups''),
            (''asset_group_ids'', get_prop args ''asset_group_ids''),
            (''option_title'', get_prop args ''option_title''),
            (''option_id'', get_prop args ''option_id''),
            (''iscanner_name'', get_prop args ''iscanner_name''),
            (''priority'', get_prop args ''priority'')]
      in postXml svc c ''/api/2.0/fo/scan/'' params w))"

definition qualys_list_scans :: "services \<Rightarrow> client \<Rightarrow> jsobject \<Rightarrow> world \<Rightarrow> (failure + jsval) \<times> world" where
  "qualys_list_scans svc c args w =
     (let params = buildFormData
           [(''action'', JStr ''list''),
            (''scan_ref'', get_prop args ''scan_ref''),
            (''state'', get_prop args ''state''),
            (''type'', get_prop args ''type''),
            (''launched_after_datetime'', get_prop args ''launched_after_datetime''),
            (''launched_before_datetime'', get_prop args ''launched_before_datetime'')]
      in postXml svc c ''/api/2.0/fo/scan/'' params w)"

definition qualys_get_scan_results :: "services \<Rightarrow> client \<Rightarrow> jsobject \<Rightarrow> world \<Rightarrow> (failure + jsval) \<times> world" where
  "qualys_get_scan_results svc c args w =
     (if \<not> truthy (get_prop args ''scan_ref'') then (Inl (JsError ''Error'' ''scan_ref is required''), w)
      else
        (let params = buildFormData
               [(''action'', JStr ''fetch''),
                (''scan_ref'', get_prop args ''scan_ref''),
                (''output_format'', js_or (get_prop args ''output_format'') (JStr ''xml''))]
         in case postForm svc c ''/api/2.0/fo/scan/'' params w of
              (Inl e, w') \<Rightarrow> (Inl e, w')
            | (Inr r, w') \<Rightarrow>
                if get_prop args ''output_format'' = JStr ''xml'' \<or> \<not> truthy (get_prop args ''output_format'')
                then (Inr (parseXmlResponse (parseStringPromise svc) (data r)), w')
                else (Inr (JObj [(''data'', data r)]), w')))"

definition qualys_cancel_scan :: "services \<Rightarrow> client \<Rightarrow> jsobject \<Rightarrow> world \<Rightarrow> (failure + jsval) \<times> world" where
  "qualys_cancel_scan svc c args w =
     (if \<not> truthy (get_prop args ''scan_ref'') then (Inl (JsError ''Error'' ''scan_ref is required''), w)
     else (let params = buildFormData
           [(''action'', JStr ''cancel''),
            (''scan_ref'', get_prop args ''scan_ref'')]
      in postXml svc c ''/api/2.0/fo/scan/'' params w))"

definition qualys_pause_scan :: "services \<Rightarrow> client \<Rightarrow> jsobject \<Rightarrow> world \<Rightarrow> (failure + jsval) \<times> world" where
  "qualys_pause_scan svc c args w =
     (if \<not> truthy (get_prop args ''scan_ref'') then (Inl (JsError ''Error'' ''scan_ref is required''), w)
     else (let params = buildFormData
           [(''action'', JStr ''pause''),
            (''scan_ref'', get_prop args ''scan_ref'')]
      in postXml svc c ''/api/2.0/fo/scan/'' params w))"

definition qualys_resume_scan :: "services \<Rightarrow> client \<Rightarrow> jsobject \<Rightarrow> world \<Rightarrow> (failure + jsval) \<times> world" where
  "qualys_resume_scan svc c args w =
     (if \<not> truthy (get_prop args ''scan_ref'') then (Inl (JsError ''Error'' ''scan_ref is required''), w)
     else (let params = buildFormData
           [(''action'', JStr ''resume''),
            (''scan_ref'', get_prop args ''scan_ref'')]
      in postXml svc c ''/api/2.0/fo/scan/'' params w))"

definition qualys_list_reports :: "services \<Rightarrow> client \<Rightarrow> jsobject \<Rightarrow> world \<Rightarrow> (failure + jsval) \<times> world" where
  "qualys_list_reports svc c args w =
     (let params = buildFormData
           [(''action'', JStr ''list''),
            (''id'', get_prop args ''id''),
            (''state'', get_prop args ''state'')]
      in postXml svc c ''/api/2.0/fo/report/'' params w)"

definition qualys_launch_report :: "services \<Rightarrow> client \<Rightarrow> jsobject \<Rightarrow> world \<Rightarrow> (failure + jsval) \<times> world" where
  "qualys_launch_report svc c args w =
     (if \<not> truthy (get_prop args ''template_id'') then (Inl (JsError ''Error'' ''template_id is required''), w)
     else (let params = buildFormData
           [(''action'', JStr ''launch''),
            (''template_id'', get_prop args ''template_id''),
            (''report_title'', get_prop args ''report_title''),
            (''output_format'', js_or (get_prop args ''output_format'') (JStr ''pdf'')),
            (''ips'', get_prop args ''ips''),
            (''asset_group_ids'', get_prop args ''asset_group_ids'')]
      in postXml svc c ''/api/2.0/fo/report/'' params w))"

definition qualys_download_report :: "services \<Rightarrow> client \<Rightarrow> jsobject \<Rightarrow> world \<Rightarrow> (failure + jsval) \<times> world" where
  "qualys_download_report svc c args w =
     (if \<not> truthy (get_prop args ''id'') then (Inl (JsError ''Error'' ''id is required''), w)
      else
        (let params = buildFormData [(''action'', JStr ''fetch''), (''id'', get_prop args ''id'')]
         in case rateLimitedRequest
                   (client_post svc c
                      \<lparr> path = ''/api/2.0/fo/report/'', body = params, contentType = None,
                        responseType = Some ''arraybuffer'' \<rparr>) w of
              (Inl e, w') \<Rightarrow> (Inl e, w')
            | (Inr r, w') \<Rightarrow>
                (case data_length (data r) of
                   Inl e \<Rightarrow> (Inl e, w')
                 | Inr n \<Rightarrow>
                     (Inr (JObj [(''message'', JStr ''Report downloaded successfully''),
                                 (''id'', get_prop args ''id''),
                                 (''size'', n),
                                 (''contentType'', get_prop (headers r) ''content-type'')]), w'))))"

definition qualys_list_asset_groups :: "services \<Rightarrow> client \<Rightarrow> jsobject \<Rightarrow> world \<Rightarrow> (failure + jsval) \<times> world" where
  "qualys_list_asset_groups svc c args w =
     (let params = buildFormData
           [(''action'', JStr ''list''),
            (''ids'', get_prop args ''ids''),
            (''title'', get_prop args ''title''),
            (''truncation_limit'', js_or (get_prop args ''truncation_limit'') (JNum 100))]
      in postXml svc c ''/api/2.0/fo/asset/group/'' params w)"

definition qualys_get_knowledgebase :: "services \<Rightarrow> client \<Rightarrow> jsobject \<Rightarrow> world \<Rightarrow> (failure + jsval) \<times> world" where
  "qualys_get_knowledgebase svc c args w =
     (let params = buildFormData
           [(''action'', JStr ''list''),
            (''ids'', get_prop args ''ids''),
            (''id_min'', get_prop args ''id_min''),
            (''id_max'', get_prop args ''id_max''),
            (''details'', js_or (get_prop args ''details'') (JStr ''Basic'')),
            (''last_modified_after'', get_prop args ''last_modified_after''),
            (''last_modified_before'', get_prop args ''last_modified_before''),
            (''published_after'', get_prop args ''published_after''),
            (''published_before'', get_prop args ''published_before''),
            (''show_qds'', flag (get_prop args ''show_qds'')),
            (''show_qds_factors'', flag (get_prop args ''show_qds_factors'')),
            (''show_pci_reasons'', flag (get_prop args ''show_pci_reasons''))]
      in postXml svc c ''/api/2.0/fo/knowledge_base/vuln/'' params w)"

text \<open>
  The search by CVE fills \<open>cveParams\<close> by assignments, in this order: \<open>cve_id\<close>, \<open>qvs_min\<close>,
  \<open>qvs_max\<close>, \<open>last_modified_after\<close>, \<open>show_qds\<close>, \<open>show_qds_factors\<close>.
\<close>

definition qualys_get_knowledgebase_by_cve :: "services \<Rightarrow> client \<Rightarrow> jsobject \<Rightarrow> world \<Rightarrow> (failure + jsval) \<times> world" where
  "qualys_get_knowledgebase_by_cve svc c args w =
     (let p0 = [(''action'', JStr ''list'')];
          p1 = (if truthy (get_prop args ''cve_ids'')
                then set_prop p0 ''cve_id'' (get_prop args ''cve_ids'') else p0);
          p2 = (if get_prop args ''qvs_min'' \<noteq> JUndefined
                then set_prop p1 ''qvs_min'' (get_prop args ''qvs_min'') else p1);
          p3 = (if get_prop args ''qvs_max'' \<noteq> JUndefined
                then set_prop p2 ''qvs_max'' (get_prop args ''qvs_max'') else p2);
          p4 = (if truthy (get_prop args ''last_modified_within_days'')
                then (case isoDateDaysAgo svc (now w) (get_prop args ''last_modified_within_days'') of
                        Inl e \<Rightarrow> Inl e
                      | Inr d \<Rightarrow> Inr (set_prop p3 ''last_modified_after'' (JStr d)))
                else Inr p3)
      in case p4 of
           Inl e \<Rightarrow> (Inl e, w)
         | Inr p \<Rightarrow>
             (let p5 = set_prop p ''show_qds''
                         (JStr (if get_prop args ''show_qds'' \<noteq> JBool False then ''1'' else ''0''));
                  p6 = set_prop p5 ''show_qds_factors'' (flag (get_prop args ''show_qds_factors''))
              in postXml svc c ''/api/2.0/fo/knowledge_base/vuln/'' (buildFormData p6) w))"

definition qualys_list_scanners :: "services \<Rightarrow> client \<Rightarrow> jsobject \<Rightarrow> world \<Rightarrow> (failure + jsval) \<times> world" where
  "qualys_list_scanners svc c args w =
     (let params = buildFormData
           [(''action'', JStr ''list''),
            (''type'', get_prop args ''type''),
            (''status'', get_prop args ''status'')]
      in postXml svc c ''/api/2.0/fo/appliance/'' params w)"

definition qualys_list_option_profiles :: "services \<Rightarrow> client \<Rightarrow> jsobject \<Rightarrow> world \<Rightarrow> (failure + jsval) \<times> world" where
  "qualys_list_option_profiles svc c args w =
     (let params = buildFormData
           [(''action'', JStr ''list''),
            (''title'', get_prop args ''title'')]
      in postXml svc c ''/api/2.0/fo/subscription/option_profile/vm/'' params w)"

definition qualys_list_tags :: "services \<Rightarrow> client \<Rightarrow> jsobject \<Rightarrow> world \<Rightarrow> (failure + jsval) \<times> world" where
  "qualys_list_tags svc c args w =
     (let params = buildFormData [(''action'', JStr ''list'')]
      in case rateLimitedRequest
                (client_post svc c
                   \<lparr> path = ''/qps/rest/2.0/search/am/tag'', body = params,
                     contentType = Some ''application/json'', responseType = None \<rparr>) w of
           (Inl e, w') \<Rightarrow> (Inl e, w')
         | (Inr r, w') \<Rightarrow> (Inr (data r), w'))"

definition qualys_get_activity_log :: "services \<Rightarrow> client \<Rightarrow> jsobject \<Rightarrow> world \<Rightarrow> (failure + jsval) \<times> world" where
  "qualys_get_activity_log svc c args w =
     (let params = buildFormData
           [(''action'', JStr ''list''),
            (''since_datetime'', get_prop args ''since_datetime''),
            (''until_datetime'', get_prop args ''until_datetime''),
            (''user_action'', get_prop args ''action''),
            (''truncation_limit'', js_or (get_prop args ''truncation_limit'') (JNum 100))]
      in postXml svc c ''/api/2.0/fo/activity_log/'' params w)"

text \<open>The \<open>switch (name)\<close> itself, with its \<open>default\<close> branch.\<close>

definition tool_switch :: "services \<Rightarrow> client \<Rightarrow> string \<Rightarrow> jsobject \<Rightarrow> world \<Rightarrow> (failure + jsval) \<times> world" where
  "tool_switch svc c name args w =
     (if name = ''qualys_list_hosts'' then qualys_list_hosts svc c args w
      else if name = ''qualys_get_host_detections'' then qualys_get_host_detections svc c args w
      else if name = ''qualys_launch_scan'' then qualys_launch_scan svc c args w
      else if name = ''qualys_list_scans'' then qualys_list_scans svc c args w
      else if name = ''qualys_get_scan_results'' then qualys_get_scan_results svc c args w
      else if name = ''qualys_cancel_scan'' then qualys_cancel_scan svc c args w
      else if name = ''qualys_pause_scan'' then qualys_pause_scan svc c args w
      else if name = ''qualys_resume_scan'' then qualys_resume_scan svc c args w
      else if name = ''qualys_list_reports'' then qualys_list_reports svc c args w
      else if name = ''qualys_launch_report'' then qualys_launch_report svc c args w
      else if name = ''qualys_download_report'' then qualys_download_report svc c args w
      else if name = ''qualys_list_asset_groups'' then qualys_list_asset_groups svc c args w
      else if name = ''qualys_get_knowledgebase'' then qualys_get_knowledgebase svc c args w
      else if name = ''qualys_get_knowledgebase_by_cve'' then qualys_get_knowledgebase_by_cve svc c args w
      else if name = ''qualys_list_scanners'' then qualys_list_scanners svc c args w
      else if name = ''qualys_list_option_profiles'' then qualys_list_option_profiles svc c args w
      else if name = ''qualys_list_tags'' then qualys_list_tags svc c args w
      else if name = ''qualys_get_activity_log'' then qualys_get_activity_log svc c args w
      else (Inl (JsError ''Error'' (''Unknown tool: '' @ name)), w))"

text \<open>
  \<^verbatim>\<open>
  async function handleToolCall(name, args) {
    const credentialError = checkCredentials();
    if (credentialError) {
      return { content: [{ type: "text", text: `Error: ${credentialError}` }] };
    }
    const client = getApiClient();
    try {
      let response; let result: unknown;
      switch (name) { ... }
      return { content: [{ type: "text", text: JSON.stringify(result, null, 2) }] };
    } catch (error) {
      const errorMessage = handleApiError(error);
      return { content: [{ type: "text", text: `Error: ${errorMessage}` }] };
    }
  }
  \<close>
  The value returned is the \<open>text\<close> of the one content block (\<open>None\<close> when
  \<open>JSON.stringify\<close> yields \<open>undefined\<close>), with the state the call leaves.
\<close>

definition handleToolCall ::
  "config \<Rightarrow> services \<Rightarrow> string \<Rightarrow> jsobject \<Rightarrow> world \<Rightarrow> string option \<times> world" where
  "handleToolCall cfg svc name args w =
     (case checkCredentials cfg of
        Some credentialError \<Rightarrow> (Some (''Error: '' @ credentialError), w)
      | None \<Rightarrow>
          (case getApiClient cfg w of
             (c, w1) \<Rightarrow>
               (case tool_switch svc c name args w1 of
                  (Inr result, w2) \<Rightarrow> (JSON_stringify_2 result, w2)
                | (Inl error, w2) \<Rightarrow> (Some (''Error: '' @ handleApiError error), w2))))"

subsection \<open>The uniform wire convention\<close>

text \<open>
  A request follows the convention when it goes to the path family \<open>/api/2.0/fo/\<close> with no
  content type of its own, so that the form-encoded body goes out under the client's
  \<open>application/x-www-form-urlencoded\<close>.
\<close>

definition uniform_request :: "request \<Rightarrow> bool" where
  "uniform_request req \<longleftrightarrow> take 12 (path req) = ''/api/2.0/fo/'' \<and> contentType req = None"

text \<open>The client, once built, has the form content type as its default, as \<open>getApiClient\<close> builds it.\<close>

definition form_client :: "world \<Rightarrow> bool" where
  "form_client w =
     (case apiClient w of
        None \<Rightarrow> True
      | Some c \<Rightarrow> map_of (defaultHeaders c) ''Content-Type'' = Some ''application/x-www-form-urlencoded'')"

text \<open>
  From \<open>w\<close> to \<open>w'\<close> nothing was sent, or one request that follows the convention was
  sent through the client \<open>c\<close>.
\<close>

definition uniform_step :: "client \<Rightarrow> world \<Rightarrow> world \<Rightarrow> bool" where
  "uniform_step c w w' \<longleftrightarrow>
     (sent w' = sent w \<and> wire w' = wire w)
     \<or> (\<exists>req. uniform_request req \<and> sent w' = sent w @ [req] \<and> wire w' = wire w @ [transmit c req])"

text \<open>The requests handed to the client, and the transmissions, since the state \<open>w\<close>.\<close>

definition new_sent :: "world \<Rightarrow> world \<Rightarrow> request list" where
  "new_sent w w' = drop (length (sent w)) (sent w')"

definition new_wire :: "world \<Rightarrow> world \<Rightarrow> transmitted list" where
  "new_wire w w' = drop (length (wire w)) (wire w')"

section \<open>Sample inputs\<close>

text \<open>Concrete configurations, services and responses at which the results below are evaluated.\<close>

definition example_config :: config where
  "example_config =
     \<lparr> QUALYS_API_URL = ''https://qualysapi.qualys.com'',
       QUALYS_USERNAME = ''user'', QUALYS_PASSWORD = ''pass'' \<rparr>"

definition unauthorized_response :: response where
  "unauthorized_response =
     \<lparr> status = 401, statusText = ''Unauthorized'', data = JStr ''Bad Login/Password'',
       headers = [] \<rparr>"

text \<open>
  A remote service that refuses every connection; the parser is never reached, and
  answers \<open>null\<close>.
\<close>

definition refusing_services :: services where
  "refusing_services =
     \<lparr> parseStringPromise = (\<lambda>xml. Inr JNull),
       post = (\<lambda>c req. Inl (AxiosError None (Some ''ECONNREFUSED'') ''connect ECONNREFUSED'')),
       isoDateDaysAgo = (\<lambda>t days. Inr ''2024-01-01'') \<rparr>"

text \<open>
  A remote service that answers every request with a JSON body; the parser answers
  \<open>null\<close>.
\<close>

definition tag_service_response :: response where
  "tag_service_response =
     \<lparr> status = 200, statusText = ''OK'',
       data = JObj [(''ServiceResponse'', JObj [(''responseCode'', JStr ''SUCCESS''), (''count'', JNum 0)])],
       headers = [(''content-type'', JStr ''application/json'')] \<rparr>"

definition answering_services :: services where
  "answering_services =
     \<lparr> parseStringPromise = (\<lambda>xml. Inr JNull),
       post = (\<lambda>c req. Inr tag_service_response),
       isoDateDaysAgo = (\<lambda>t days. Inr ''2024-01-01'') \<rparr>"

section \<open>Form encoder: results\<close>

lemma join_cons: "join sep (r # rs) = r @ concat (map (\<lambda>x. sep @ x) rs)"
  by (induction rs arbitrary: r) auto

lemma join_amp: "join ''&'' rs = spec_joined rs"
  by (cases rs) (simp_all add: join_cons)

lemma render_filter:
  "map (\<lambda>(key, value). encodeURIComponent key @ ''='' @ encodeURIComponent (String_js value))
     (filter (\<lambda>(_, value). value \<noteq> JUndefined \<and> value \<noteq> JStr []) ps) = spec_render ps"
  by (induction ps) auto

lemma Object_entries_no_index:
  "\<forall>(k, v) \<in> set ps. \<not> isArrayIndex k \<Longrightarrow> Object_entries ps = ps"
proof -
  assume a: "\<forall>(k, v) \<in> set ps. \<not> isArrayIndex k"
  then have "filter (\<lambda>(k, v). isArrayIndex k) ps = []"
    by (auto simp: filter_empty_conv)
  moreover from a have "filter (\<lambda>(k, v). \<not> isArrayIndex k) ps = ps"
    by (auto simp: filter_id_conv)
  ultimately show ?thesis by (simp add: Object_entries_def)
qed

text \<open>
  C2, as stated: the encoder's output is the specification's rendering of the entries in
  insertion order. It is not, for a mapping with an array-index key: \<open>Object.entries\<close>
  puts the key \<open>1\<close> before the key \<open>b\<close> that was inserted first.
\<close>

theorem buildFormData_insertion_order_counterexample:
  "buildFormData [(''b'', JStr ''x''), (''1'', JStr ''y'')] = ''1=y&b=x''
   \<and> spec_formEncode [(''b'', JStr ''x''), (''1'', JStr ''y'')] = ''b=x&1=y''
   \<and> buildFormData [(''b'', JStr ''x''), (''1'', JStr ''y'')]
       \<noteq> spec_formEncode [(''b'', JStr ''x''), (''1'', JStr ''y'')]"
  by code_simp

text \<open>
  C2, amended: for every mapping, \<open>buildFormData\<close> drops the entries whose value is
  \<open>undefined\<close> or the empty string, renders every other entry as
  \<open>percentEncode(key) + "=" + percentEncode(String(value))\<close> and joins the renderings with
  \<open>&\<close>, in the order of \<open>Object.entries\<close>; that order is the insertion order whenever no
  key is an array index.
\<close>

theorem buildFormData_entries_order:
  "buildFormData params = spec_formEncode (Object_entries params)
   \<and> ((\<forall>(k, v) \<in> set params. \<not> isArrayIndex k) \<longrightarrow> buildFormData params = spec_formEncode params)"
proof -
  have "buildFormData params = spec_formEncode (Object_entries params)"
    unfolding buildFormData_def spec_formEncode_def join_amp render_filter ..
  then show ?thesis
    by (auto simp: Object_entries_no_index)
qed

text \<open>C2, amended, at a mapping with an absent and an empty value.\<close>

theorem buildFormData_entries_order_witness:
  "filter (\<lambda>(k, v). isArrayIndex k)
     [(''action'', JStr ''list''), (''ips'', JStr ''10.0.0.1,10.0.0.2''), (''ids'', JUndefined),
      (''title'', JStr []), (''truncation_limit'', JNum 100)] = []
   \<and> buildFormData
        [(''action'', JStr ''list''), (''ips'', JStr ''10.0.0.1,10.0.0.2''), (''ids'', JUndefined),
         (''title'', JStr []), (''truncation_limit'', JNum 100)]
     = spec_formEncode
        [(''action'', JStr ''list''), (''ips'', JStr ''10.0.0.1,10.0.0.2''), (''ids'', JUndefined),
         (''title'', JStr []), (''truncation_limit'', JNum 100)]
   \<and> spec_formEncode
        [(''action'', JStr ''list''), (''ips'', JStr ''10.0.0.1,10.0.0.2''), (''ids'', JUndefined),
         (''title'', JStr []), (''truncation_limit'', JNum 100)]
     = ''action=list&ips=10.0.0.1%2C10.0.0.2&truncation_limit=100''"
proof -
  let ?p = "[(''action'', JStr ''list''), (''ips'', JStr ''10.0.0.1,10.0.0.2''), (''ids'', JUndefined),
             (''title'', JStr []), (''truncation_limit'', JNum 100)]"
  have f: "filter (\<lambda>(k, v). isArrayIndex k) ?p = []"
    by code_simp
  then have h: "\<forall>(k, v) \<in> set ?p. \<not> isArrayIndex k"
    by (simp only: filter_empty_conv) auto
  have e: "spec_formEncode ?p = ''action=list&ips=10.0.0.1%2C10.0.0.2&truncation_limit=100''"
    by code_simp
  from buildFormData_entries_order [of ?p] h have "buildFormData ?p = spec_formEncode ?p"
    by blast
  with f e show ?thesis by blast
qed

section \<open>Dispatcher: results\<close>

lemma sent_getApiClient: "sent (snd (getApiClient cfg w)) = sent w"
  by (simp add: getApiClient_def Let_def split: option.splits)

lemma checkCredentials_None:
  "QUALYS_USERNAME cfg \<noteq> [] \<Longrightarrow> QUALYS_PASSWORD cfg \<noteq> [] \<Longrightarrow> checkCredentials cfg = None"
  by (simp add: checkCredentials_def)

lemma handleToolCall_configured:
  assumes "QUALYS_USERNAME cfg \<noteq> []" "QUALYS_PASSWORD cfg \<noteq> []"
  shows "handleToolCall cfg svc name args w =
     (case tool_switch svc (fst (getApiClient cfg w)) name args (snd (getApiClient cfg w)) of
        (Inr result, w2) \<Rightarrow> (JSON_stringify_2 result, w2)
      | (Inl error, w2) \<Rightarrow> (Some (''Error: '' @ handleApiError error), w2))"
  using assms by (simp add: handleToolCall_def checkCredentials_None split: prod.splits)

lemma sent_rateLimitedRequest_post:
  "sent (snd (rateLimitedRequest (client_post svc c req) w)) = sent w @ [req]"
  by (simp add: rateLimitedRequest_def client_post_def Let_def split: option.splits)

lemma fst_rateLimitedRequest_post:
  "fst (rateLimitedRequest (client_post svc c req) w) = post svc c req"
  by (simp add: rateLimitedRequest_def client_post_def Let_def split: option.splits)

lemma sent_postXml:
  "sent (snd (postXml svc c p params w))
     = sent w @ [\<lparr> path = p, body = params, contentType = None, responseType = None \<rparr>]"
  by (simp add: postXml_def postForm_def split: prod.splits sum.splits)
     (metis sent_rateLimitedRequest_post snd_conv)

lemma detections_body:
  "buildFormData
     [(''action'', JStr ''list''), (''ips'', JStr ''10.0.0.1,10.0.0.2''), (''ids'', JUndefined),
      (''ag_ids'', JUndefined), (''status'', JUndefined), (''severities'', JStr ''4,5''),
      (''qids'', JUndefined), (''truncation_limit'', JNum 100), (''show_igs'', JStr ''0''),
      (''include_vuln_type'', JUndefined), (''arf_filter_keys'', JUndefined), (''show_epss'', JStr ''0'')]
   = ''action=list&ips=10.0.0.1%2C10.0.0.2&severities=4%2C5&truncation_limit=100&show_igs=0&show_epss=0''"
  by code_simp

lemma switch_detections:
  "tool_switch svc c ''qualys_get_host_detections'' args w = qualys_get_host_detections svc c args w"
  by (simp add: tool_switch_def)

lemma switch_launch_scan:
  "tool_switch svc c ''qualys_launch_scan'' args w = qualys_launch_scan svc c args w"
  by (simp add: tool_switch_def)

lemma switch_download_report:
  "tool_switch svc c ''qualys_download_report'' args w = qualys_download_report svc c args w"
  by (simp add: tool_switch_def)

lemma switch_list_tags:
  "tool_switch svc c ''qualys_list_tags'' args w = qualys_list_tags svc c args w"
  by (simp add: tool_switch_def)

lemma list_tags_body: "buildFormData [(''action'', JStr ''list'')] = ''action=list''"
  by code_simp

text \<open>
  C3: with credentials configured, dispatching \<open>qualys_get_host_detections\<close> with the
  arguments \<open>{ips: "10.0.0.1,10.0.0.2", severities: "4,5", truncation_limit: 100}\<close> sends
  exactly one request, whose body is
  \<open>action=list&ips=10.0.0.1%2C10.0.0.2&severities=4%2C5&truncation_limit=100&show_igs=0&show_epss=0\<close>:
  the keys in the order the handler declares them, the absent ones dropped, the flags
  rendered \<open>0\<close>.
\<close>

theorem detections_wire_body:
  assumes "QUALYS_USERNAME cfg \<noteq> []" and "QUALYS_PASSWORD cfg \<noteq> []"
  shows "sent (snd (handleToolCall cfg svc ''qualys_get_host_detections''
            [(''ips'', JStr ''10.0.0.1,10.0.0.2''), (''severities'', JStr ''4,5''),
             (''truncation_limit'', JNum 100)] w))
         = sent w @ [\<lparr> path = ''/api/2.0/fo/asset/host/vm/detection/'',
                        body = ''action=list&ips=10.0.0.1%2C10.0.0.2&severities=4%2C5&truncation_limit=100&show_igs=0&show_epss=0'',
                        contentType = None, responseType = None \<rparr>]"
proof -
  let ?args = "[(''ips'', JStr ''10.0.0.1,10.0.0.2''), (''severities'', JStr ''4,5''),
             (''truncation_limit'', JNum 100)]"
  let ?c = "fst (getApiClient cfg w)" and ?w1 = "snd (getApiClient cfg w)"
  have params: "qualys_get_host_detections svc ?c ?args ?w1
      = postXml svc ?c ''/api/2.0/fo/asset/host/vm/detection/''
          ''action=list&ips=10.0.0.1%2C10.0.0.2&severities=4%2C5&truncation_limit=100&show_igs=0&show_epss=0'' ?w1"
    unfolding qualys_get_host_detections_def Let_def
    by (simp add: get_prop_def js_or_def flag_def detections_body[symmetric])
  have "snd (handleToolCall cfg svc ''qualys_get_host_detections'' ?args w)
      = snd (tool_switch svc ?c ''qualys_get_host_detections'' ?args ?w1)"
    by (simp add: handleToolCall_configured[OF assms] split: prod.splits sum.splits)
  then show ?thesis
    by (simp add: switch_detections params sent_postXml sent_getApiClient)
qed

text \<open>C3, at the sample configuration and a fresh process.\<close>

theorem detections_wire_body_witness:
  "QUALYS_USERNAME example_config \<noteq> [] \<and> QUALYS_PASSWORD example_config \<noteq> []
   \<and> sent (snd (handleToolCall example_config refusing_services ''qualys_get_host_detections''
            [(''ips'', JStr ''10.0.0.1,10.0.0.2''), (''severities'', JStr ''4,5''),
             (''truncation_limit'', JNum 100)] (initial_world 1700000000000)))
       = [\<lparr> path = ''/api/2.0/fo/asset/host/vm/detection/'',
            body = ''action=list&ips=10.0.0.1%2C10.0.0.2&severities=4%2C5&truncation_limit=100&show_igs=0&show_epss=0'',
            contentType = None, responseType = None \<rparr>]"
proof -
  have u: "QUALYS_USERNAME example_config \<noteq> []" and p: "QUALYS_PASSWORD example_config \<noteq> []"
    by (simp_all add: example_config_def)
  show ?thesis
    using u p detections_wire_body [OF u p, of refusing_services "initial_world 1700000000000"]
    by (simp add: initial_world_def)
qed

text \<open>
  C5: for every operation name and every argument mapping, when the configured username
  or password is empty, \<open>handleToolCall\<close> returns the configuration-error text, prefixed
  \<open>Error: \<close>, and leaves the state as it was: no request is sent and no client is built.
\<close>

theorem handleToolCall_without_credentials:
  assumes "QUALYS_USERNAME cfg = [] \<or> QUALYS_PASSWORD cfg = []"
  shows "handleToolCall cfg svc name args w =
           (Some (''Error: Qualys credentials not configured. Please set the following environment variables:''
                  @ [CHR 0x0A] @ ''  - QUALYS_USERNAME: Your Qualys username''
                  @ [CHR 0x0A] @ ''  - QUALYS_PASSWORD: Your Qualys password''
                  @ [CHR 0x0A] @ ''  - QUALYS_API_URL: (optional) Your Qualys API URL (defaults to https://qualysapi.qualys.com)''),
            w)"
  using assms by (auto simp add: handleToolCall_def checkCredentials_def)

text \<open>C5, at a configuration with an empty password.\<close>

theorem handleToolCall_without_credentials_witness:
  "(QUALYS_USERNAME (example_config\<lparr> QUALYS_PASSWORD := [] \<rparr>) = []
      \<or> QUALYS_PASSWORD (example_config\<lparr> QUALYS_PASSWORD := [] \<rparr>) = [])
   \<and> take 7 (the (fst (handleToolCall (example_config\<lparr> QUALYS_PASSWORD := [] \<rparr>) refusing_services
                    ''qualys_list_hosts'' [] (initial_world 1700000000000)))) = ''Error: ''
   \<and> sent (snd (handleToolCall (example_config\<lparr> QUALYS_PASSWORD := [] \<rparr>) refusing_services
                    ''qualys_list_hosts'' [] (initial_world 1700000000000))) = []"
proof -
  have h: "QUALYS_USERNAME (example_config\<lparr> QUALYS_PASSWORD := [] \<rparr>) = []
      \<or> QUALYS_PASSWORD (example_config\<lparr> QUALYS_PASSWORD := [] \<rparr>) = []" by simp
  show ?thesis
    using h handleToolCall_without_credentials [OF h, of refusing_services "''qualys_list_hosts''" "[]"
        "initial_world 1700000000000"]
    by (simp add: initial_world_def)
qed

text \<open>
  C7: with credentials configured, \<open>qualys_launch_scan\<close> without a \<open>scan_title\<close> returns the
  error text that names \<open>scan_title\<close>, and with a \<open>scan_title\<close> but none of \<open>ip\<close>,
  \<open>asset_groups\<close>, \<open>asset_group_ids\<close> returns the error text that names those three; in both
  cases no request is sent.
\<close>

theorem launch_scan_validation:
  assumes "QUALYS_USERNAME cfg \<noteq> []" and "QUALYS_PASSWORD cfg \<noteq> []"
  shows "(\<not> truthy (get_prop args ''scan_title'') \<longrightarrow>
            fst (handleToolCall cfg svc ''qualys_launch_scan'' args w)
              = Some ''Error: Unknown Error: Error: scan_title is required''
            \<and> sent (snd (handleToolCall cfg svc ''qualys_launch_scan'' args w)) = sent w)
       \<and> (truthy (get_prop args ''scan_title'')
            \<and> \<not> truthy (get_prop args ''ip'') \<and> \<not> truthy (get_prop args ''asset_groups'')
            \<and> \<not> truthy (get_prop args ''asset_group_ids'') \<longrightarrow>
            fst (handleToolCall cfg svc ''qualys_launch_scan'' args w)
              = Some ''Error: Unknown Error: Error: At least one of ip, asset_groups, or asset_group_ids is required''
            \<and> sent (snd (handleToolCall cfg svc ''qualys_launch_scan'' args w)) = sent w)"
  by (simp add: handleToolCall_configured[OF assms] switch_launch_scan qualys_launch_scan_def
        errorToString_def sent_getApiClient)

text \<open>C7, at a call without a title and at a call with a title only.\<close>

theorem launch_scan_validation_witness:
  "QUALYS_USERNAME example_config \<noteq> [] \<and> QUALYS_PASSWORD example_config \<noteq> []
   \<and> \<not> truthy (get_prop [(''ip'', JStr ''10.0.0.1'')] ''scan_title'')
   \<and> fst (handleToolCall example_config refusing_services ''qualys_launch_scan''
             [(''ip'', JStr ''10.0.0.1'')] (initial_world 1700000000000))
        = Some ''Error: Unknown Error: Error: scan_title is required''
   \<and> sent (snd (handleToolCall example_config refusing_services ''qualys_launch_scan''
             [(''ip'', JStr ''10.0.0.1'')] (initial_world 1700000000000))) = []
   \<and> truthy (get_prop [(''scan_title'', JStr ''weekly'')] ''scan_title'')
   \<and> \<not> truthy (get_prop [(''scan_title'', JStr ''weekly'')] ''ip'')
   \<and> \<not> truthy (get_prop [(''scan_title'', JStr ''weekly'')] ''asset_groups'')
   \<and> \<not> truthy (get_prop [(''scan_title'', JStr ''weekly'')] ''asset_group_ids'')
   \<and> fst (handleToolCall example_config refusing_services ''qualys_launch_scan''
             [(''scan_title'', JStr ''weekly'')] (initial_world 1700000000000))
        = Some ''Error: Unknown Error: Error: At least one of ip, asset_groups, or asset_group_ids is required''
   \<and> sent (snd (handleToolCall example_config refusing_services ''qualys_launch_scan''
             [(''scan_title'', JStr ''weekly'')] (initial_world 1700000000000))) = []"
proof -
  have u: "QUALYS_USERNAME example_config \<noteq> []" and p: "QUALYS_PASSWORD example_config \<noteq> []"
    by (simp_all add: example_config_def)
  have a: "\<not> truthy (get_prop [(''ip'', JStr ''10.0.0.1'')] ''scan_title'')"
    by (simp add: get_prop_def)
  have b: "truthy (get_prop [(''scan_title'', JStr ''weekly'')] ''scan_title'')
     \<and> \<not> truthy (get_prop [(''scan_title'', JStr ''weekly'')] ''ip'')
     \<and> \<not> truthy (get_prop [(''scan_title'', JStr ''weekly'')] ''asset_groups'')
     \<and> \<not> truthy (get_prop [(''scan_title'', JStr ''weekly'')] ''asset_group_ids'')"
    by (simp add: get_prop_def)
  have s: "sent (initial_world 1700000000000) = []"
    by (simp add: initial_world_def)
  show ?thesis
    using u p a b s
      launch_scan_validation [OF u p, of "[(''ip'', JStr ''10.0.0.1'')]" refusing_services
        "initial_world 1700000000000"]
      launch_scan_validation [OF u p, of "[(''scan_title'', JStr ''weekly'')]" refusing_services
        "initial_world 1700000000000"]
    by simp
qed

text \<open>
  C10: with credentials configured, \<open>qualys_download_report\<close> with \<open>id\<close> equal to the number
  \<open>0\<close> (or to the empty string) returns the error text \<open>id is required\<close> and sends no
  request: the presence check tests truthiness.
\<close>

theorem download_report_falsy_id:
  assumes "QUALYS_USERNAME cfg \<noteq> []" and "QUALYS_PASSWORD cfg \<noteq> []"
    and "get_prop args ''id'' = JNum 0 \<or> get_prop args ''id'' = JStr []"
  shows "fst (handleToolCall cfg svc ''qualys_download_report'' args w)
           = Some ''Error: Unknown Error: Error: id is required''
         \<and> sent (snd (handleToolCall cfg svc ''qualys_download_report'' args w)) = sent w"
  using assms(3)
  by (auto simp add: handleToolCall_configured[OF assms(1,2)] switch_download_report
        qualys_download_report_def errorToString_def sent_getApiClient)

text \<open>C10, at the arguments \<open>{id: 0}\<close>.\<close>

theorem download_report_falsy_id_witness:
  "QUALYS_USERNAME example_config \<noteq> [] \<and> QUALYS_PASSWORD example_config \<noteq> []
   \<and> get_prop [(''id'', JNum 0)] ''id'' = JNum 0
   \<and> fst (handleToolCall example_config refusing_services ''qualys_download_report''
             [(''id'', JNum 0)] (initial_world 1700000000000))
        = Some ''Error: Unknown Error: Error: id is required''
   \<and> sent (snd (handleToolCall example_config refusing_services ''qualys_download_report''
             [(''id'', JNum 0)] (initial_world 1700000000000))) = []"
proof -
  have u: "QUALYS_USERNAME example_config \<noteq> []" and p: "QUALYS_PASSWORD example_config \<noteq> []"
    by (simp_all add: example_config_def)
  have a: "get_prop [(''id'', JNum 0)] ''id'' = JNum 0"
    by (simp add: get_prop_def)
  have s: "sent (initial_world 1700000000000) = []"
    by (simp add: initial_world_def)
  show ?thesis
    using u p a s
      download_report_falsy_id [OF u p, of "[(''id'', JNum 0)]" refusing_services
        "initial_world 1700000000000"]
    by simp
qed

lemma wire_getApiClient: "wire (snd (getApiClient cfg w)) = wire w"
  by (simp add: getApiClient_def Let_def split: option.splits)

lemma wire_rateLimitedRequest_post:
  "wire (snd (rateLimitedRequest (client_post svc c req) w)) = wire w @ [transmit c req]"
  by (simp add: rateLimitedRequest_def client_post_def Let_def split: option.splits)

lemma uniform_step_refl: "uniform_step c w w"
  by (simp add: uniform_step_def)

lemma uniform_step_post:
  assumes "rateLimitedRequest (client_post svc c req) w = (x, w')" and "uniform_request req"
  shows "uniform_step c w w'"
proof -
  have "sent w' = sent w @ [req]"
    using sent_rateLimitedRequest_post [of svc c req w] assms(1) by simp
  moreover have "wire w' = wire w @ [transmit c req]"
    using wire_rateLimitedRequest_post [of svc c req w] assms(1) by simp
  ultimately show ?thesis
    using assms(2) by (auto simp add: uniform_step_def)
qed

lemma uniform_step_postForm:
  assumes "postForm svc c p params w = (x, w')" and "take 12 p = ''/api/2.0/fo/''"
  shows "uniform_step c w w'"
  using assms(1) unfolding postForm_def
  by (rule uniform_step_post) (simp add: uniform_request_def assms(2))

lemma uniform_step_postXml:
  assumes "take 12 p = ''/api/2.0/fo/''"
  shows "uniform_step c w (snd (postXml svc c p params w))"
proof (cases "postForm svc c p params w")
  case (Pair x w')
  then have "snd (postXml svc c p params w) = w'"
    by (simp add: postXml_def split: sum.splits)
  with uniform_step_postForm [OF Pair assms] show ?thesis by simp
qed

lemma uniform_list_hosts: "uniform_step c w (snd (qualys_list_hosts svc c args w))"
  by (simp add: qualys_list_hosts_def uniform_step_postXml uniform_step_refl)

lemma uniform_get_host_detections: "uniform_step c w (snd (qualys_get_host_detections svc c args w))"
  by (simp add: qualys_get_host_detections_def uniform_step_postXml uniform_step_refl)

lemma uniform_launch_scan: "uniform_step c w (snd (qualys_launch_scan svc c args w))"
  by (simp add: qualys_launch_scan_def uniform_step_postXml uniform_step_refl)

lemma uniform_list_scans: "uniform_step c w (snd (qualys_list_scans svc c args w))"
  by (simp add: qualys_list_scans_def uniform_step_postXml uniform_step_refl)

lemma uniform_cancel_scan: "uniform_step c w (snd (qualys_cancel_scan svc c args w))"
  by (simp add: qualys_cancel_scan_def uniform_step_postXml uniform_step_refl)

lemma uniform_pause_scan: "uniform_step c w (snd (qualys_pause_scan svc c args w))"
  by (simp add: qualys_pause_scan_def uniform_step_postXml uniform_step_refl)

lemma uniform_resume_scan: "uniform_step c w (snd (qualys_resume_scan svc c args w))"
  by (simp add: qualys_resume_scan_def uniform_step_postXml uniform_step_refl)

lemma uniform_list_reports: "uniform_step c w (snd (qualys_list_reports svc c args w))"
  by (simp add: qualys_list_reports_def uniform_step_postXml uniform_step_refl)

lemma uniform_launch_report: "uniform_step c w (snd (qualys_launch_report svc c args w))"
  by (simp add: qualys_launch_report_def uniform_step_postXml uniform_step_refl)

lemma uniform_list_asset_groups: "uniform_step c w (snd (qualys_list_asset_groups svc c args w))"
  by (simp add: qualys_list_asset_groups_def uniform_step_postXml uniform_step_refl)

lemma uniform_get_knowledgebase: "uniform_step c w (snd (qualys_get_knowledgebase svc c args w))"
  by (simp add: qualys_get_knowledgebase_def uniform_step_postXml uniform_step_refl)

lemma uniform_list_scanners: "uniform_step c w (snd (qualys_list_scanners svc c args w))"
  by (simp add: qualys_list_scanners_def uniform_step_postXml uniform_step_refl)

lemma uniform_list_option_profiles: "uniform_step c w (snd (qualys_list_option_profiles svc c args w))"
  by (simp add: qualys_list_option_profiles_def uniform_step_postXml uniform_step_refl)

lemma uniform_get_activity_log: "uniform_step c w (snd (qualys_get_activity_log svc c args w))"
  by (simp add: qualys_get_activity_log_def uniform_step_postXml uniform_step_refl)

lemma uniform_get_scan_results: "uniform_step c w (snd (qualys_get_scan_results svc c args w))"
proof (cases "truthy (get_prop args ''scan_ref'')")
  case False
  then show ?thesis by (simp add: qualys_get_scan_results_def uniform_step_refl)
next
  case True
  let ?params = "buildFormData
               [(''action'', JStr ''fetch''),
                (''scan_ref'', get_prop args ''scan_ref''),
                (''output_format'', js_or (get_prop args ''output_format'') (JStr ''xml''))]"
  obtain x w' where r: "postForm svc c ''/api/2.0/fo/scan/'' ?params w = (x, w')"
    by (cases "postForm svc c ''/api/2.0/fo/scan/'' ?params w")
  then have "snd (qualys_get_scan_results svc c args w) = w'"
    using True by (simp add: qualys_get_scan_results_def split: sum.splits)
  moreover have "uniform_step c w w'"
    using r by (rule uniform_step_postForm) simp
  ultimately show ?thesis by simp
qed

lemma uniform_download_report: "uniform_step c w (snd (qualys_download_report svc c args w))"
proof (cases "truthy (get_prop args ''id'')")
  case False
  then show ?thesis by (simp add: qualys_download_report_def uniform_step_refl)
next
  case True
  let ?req = "\<lparr> path = ''/api/2.0/fo/report/'',
                body = buildFormData [(''action'', JStr ''fetch''), (''id'', get_prop args ''id'')],
                contentType = None, responseType = Some ''arraybuffer'' \<rparr>"
  obtain x w' where r: "rateLimitedRequest (client_post svc c ?req) w = (x, w')"
    by (cases "rateLimitedRequest (client_post svc c ?req) w")
  then have "snd (qualys_download_report svc c args w) = w'"
    using True by (simp add: qualys_download_report_def split: sum.splits)
  moreover have "uniform_step c w w'"
    using r by (rule uniform_step_post) (simp add: uniform_request_def)
  ultimately show ?thesis by simp
qed

lemma uniform_get_knowledgebase_by_cve:
  "uniform_step c w (snd (qualys_get_knowledgebase_by_cve svc c args w))"
  by (simp add: qualys_get_knowledgebase_by_cve_def Let_def uniform_step_postXml uniform_step_refl
        split: sum.splits)

lemma uniform_tool_switch:
  assumes "name \<noteq> ''qualys_list_tags''"
  shows "uniform_step c w (snd (tool_switch svc c name args w))"
  using assms unfolding tool_switch_def
  by (simp add: uniform_step_refl uniform_get_scan_results uniform_download_report
        uniform_get_knowledgebase_by_cve
        uniform_list_hosts uniform_get_host_detections uniform_launch_scan uniform_list_scans uniform_cancel_scan uniform_pause_scan uniform_resume_scan uniform_list_reports uniform_launch_report uniform_list_asset_groups uniform_get_knowledgebase uniform_list_scanners uniform_list_option_profiles uniform_get_activity_log)

lemma form_client_getApiClient:
  assumes "form_client w"
  shows "map_of (defaultHeaders (fst (getApiClient cfg w))) ''Content-Type''
           = Some ''application/x-www-form-urlencoded''"
  using assms by (simp add: form_client_def getApiClient_def Let_def split: option.splits)

lemma not_json_form: "\<not> str_includes ''application/json'' ''application/x-www-form-urlencoded''"
  by code_simp

lemma transmit_uniform:
  assumes "uniform_request req"
    and "map_of (defaultHeaders c) ''Content-Type'' = Some ''application/x-www-form-urlencoded''"
  shows "transmit c req
           = \<lparr> wirePath = path req, wireContentType = ''application/x-www-form-urlencoded'',
               wireBody = body req \<rparr>"
  using assms by (simp add: transmit_def uniform_request_def transformRequest_def not_json_form)

lemma tags_wire_body:
  "transformRequest ''application/json'' ''action=list'' = [CHR 0x22] @ ''action=list'' @ [CHR 0x22]"
  by code_simp

lemma tags_wire_body_json: "JSON_parse_accepts ([CHR 0x22] @ ''action=list'' @ [CHR 0x22])"
  by code_simp

text \<open>
  C9: with credentials configured, \<open>qualys_list_tags\<close> hands the client one request, to
  \<open>/qps/rest/2.0/search/am/tag\<close> with the content type \<open>application/json\<close>; under that
  content type the client transmits the body as a JSON text (the JSON string
  \<open>"action=list"\<close>); and when the service answers, the text returned is the response body
  itself, serialized, whatever the XML parser would have said. It is the single operation
  off the wire convention: for every other operation name, every request of the dispatch
  goes to the path family \<open>/api/2.0/fo/\<close> with no content type of its own and is
  transmitted form-encoded, body unchanged, under \<open>application/x-www-form-urlencoded\<close>.
\<close>

theorem list_tags_single_exception:
  assumes "QUALYS_USERNAME cfg \<noteq> []" and "QUALYS_PASSWORD cfg \<noteq> []"
  shows "sent (snd (handleToolCall cfg svc ''qualys_list_tags'' args w))
           = sent w @ [\<lparr> path = ''/qps/rest/2.0/search/am/tag'', body = ''action=list'',
                          contentType = Some ''application/json'', responseType = None \<rparr>]
         \<and> wire (snd (handleToolCall cfg svc ''qualys_list_tags'' args w))
           = wire w @ [\<lparr> wirePath = ''/qps/rest/2.0/search/am/tag'',
                          wireContentType = ''application/json'',
                          wireBody = [CHR 0x22] @ ''action=list'' @ [CHR 0x22] \<rparr>]
         \<and> JSON_parse_accepts ([CHR 0x22] @ ''action=list'' @ [CHR 0x22])
         \<and> (\<forall>r. post svc (fst (getApiClient cfg w))
                    \<lparr> path = ''/qps/rest/2.0/search/am/tag'', body = ''action=list'',
                      contentType = Some ''application/json'', responseType = None \<rparr> = Inr r
                \<longrightarrow> fst (handleToolCall cfg svc ''qualys_list_tags'' args w)
                      = JSON_stringify_2 (data r))
         \<and> (\<forall>name args'. name \<noteq> ''qualys_list_tags'' \<and> form_client w \<longrightarrow>
                list_all uniform_request (new_sent w (snd (handleToolCall cfg svc name args' w)))
                \<and> new_wire w (snd (handleToolCall cfg svc name args' w))
                    = map (\<lambda>req. \<lparr> wirePath = path req,
                                     wireContentType = ''application/x-www-form-urlencoded'',
                                     wireBody = body req \<rparr>)
                        (new_sent w (snd (handleToolCall cfg svc name args' w))))"
proof -
  let ?c = "fst (getApiClient cfg w)" and ?w1 = "snd (getApiClient cfg w)"
  let ?req = "\<lparr> path = ''/qps/rest/2.0/search/am/tag'', body = ''action=list'',
                 contentType = Some ''application/json'', responseType = None \<rparr>"
  let ?w2 = "snd (rateLimitedRequest (client_post svc ?c ?req) ?w1)"
  have snd_call: "snd (handleToolCall cfg svc name args' w) = snd (tool_switch svc ?c name args' ?w1)"
    for name args'
    by (simp add: handleToolCall_configured[OF assms] split: prod.splits sum.splits)
  have tags: "qualys_list_tags svc ?c args ?w1
      = (case post svc ?c ?req of Inl e \<Rightarrow> (Inl e, ?w2) | Inr r \<Rightarrow> (Inr (data r), ?w2))"
  proof -
    have r: "rateLimitedRequest (client_post svc ?c ?req) ?w1 = (post svc ?c ?req, ?w2)"
      by (simp add: prod_eq_iff fst_rateLimitedRequest_post)
    show ?thesis
      unfolding qualys_list_tags_def list_tags_body Let_def
      by (subst r) (simp split: sum.splits)
  qed
  have snd_tags: "snd (handleToolCall cfg svc ''qualys_list_tags'' args w) = ?w2"
    by (simp add: snd_call switch_list_tags tags split: sum.splits)
  have a: "sent (snd (handleToolCall cfg svc ''qualys_list_tags'' args w)) = sent w @ [?req]"
    by (simp add: snd_tags sent_rateLimitedRequest_post sent_getApiClient)
  have "transmit ?c ?req = \<lparr> wirePath = ''/qps/rest/2.0/search/am/tag'',
                          wireContentType = ''application/json'',
                          wireBody = [CHR 0x22] @ ''action=list'' @ [CHR 0x22] \<rparr>"
    by (simp add: transmit_def tags_wire_body)
  then have b: "wire (snd (handleToolCall cfg svc ''qualys_list_tags'' args w))
           = wire w @ [\<lparr> wirePath = ''/qps/rest/2.0/search/am/tag'',
                          wireContentType = ''application/json'',
                          wireBody = [CHR 0x22] @ ''action=list'' @ [CHR 0x22] \<rparr>]"
    by (simp add: snd_tags wire_rateLimitedRequest_post wire_getApiClient)
  have d: "fst (handleToolCall cfg svc ''qualys_list_tags'' args w) = JSON_stringify_2 (data r)"
    if "post svc ?c ?req = Inr r" for r
    by (simp add: handleToolCall_configured[OF assms] switch_list_tags tags that)
  have e: "list_all uniform_request (new_sent w (snd (handleToolCall cfg svc name args' w)))
           \<and> new_wire w (snd (handleToolCall cfg svc name args' w))
               = map (\<lambda>req. \<lparr> wirePath = path req,
                                wireContentType = ''application/x-www-form-urlencoded'',
                                wireBody = body req \<rparr>)
                   (new_sent w (snd (handleToolCall cfg svc name args' w)))"
    if "name \<noteq> ''qualys_list_tags''" and "form_client w" for name args'
  proof -
    have "uniform_step ?c ?w1 (snd (tool_switch svc ?c name args' ?w1))"
      using that(1) by (rule uniform_tool_switch)
    then have "uniform_step ?c w (snd (handleToolCall cfg svc name args' w))"
      by (simp add: snd_call uniform_step_def sent_getApiClient wire_getApiClient)
    then show ?thesis
      using transmit_uniform [OF _ form_client_getApiClient [OF that(2)]]
      by (auto simp add: uniform_step_def new_sent_def new_wire_def)
  qed
  from a b tags_wire_body_json d e show ?thesis
    by blast
qed

text \<open>
  C9, at the sample configuration and a fresh process: the tag listing against a service
  that answers, and the host listing as one of the other operations.
\<close>

theorem list_tags_single_exception_witness:
  "QUALYS_USERNAME example_config \<noteq> [] \<and> QUALYS_PASSWORD example_config \<noteq> []
   \<and> wire (snd (handleToolCall example_config answering_services ''qualys_list_tags'' []
                  (initial_world 1700000000000)))
       = [\<lparr> wirePath = ''/qps/rest/2.0/search/am/tag'', wireContentType = ''application/json'',
            wireBody = [CHR 0x22] @ ''action=list'' @ [CHR 0x22] \<rparr>]
   \<and> fst (handleToolCall example_config answering_services ''qualys_list_tags'' []
             (initial_world 1700000000000))
       = JSON_stringify_2 (data tag_service_response)
   \<and> ''qualys_list_hosts'' \<noteq> ''qualys_list_tags''
   \<and> form_client (initial_world 1700000000000)
   \<and> list_all uniform_request
        (new_sent (initial_world 1700000000000)
           (snd (handleToolCall example_config answering_services ''qualys_list_hosts'' []
                   (initial_world 1700000000000))))"
proof -
  have u: "QUALYS_USERNAME example_config \<noteq> []" and p: "QUALYS_PASSWORD example_config \<noteq> []"
    by (simp_all add: example_config_def)
  have f: "form_client (initial_world 1700000000000)"
    by (simp add: form_client_def initial_world_def)
  have n: "''qualys_list_hosts'' \<noteq> ''qualys_list_tags''"
    by simp
  have i: "wire (initial_world 1700000000000) = []"
    by (simp add: initial_world_def)
  have r: "post answering_services c req = Inr tag_service_response" for c req
    by (simp add: answering_services_def)
  show ?thesis
    using u p f n i r
      list_tags_single_exception [OF u p, of answering_services "[]" "initial_world 1700000000000"]
    by simp
qed

section \<open>Error classifier: results\<close>

text \<open>
  C6: the decision table of \<open>handleApiError\<close>, in priority order. A failure with a response
  yields \<open>API Error: \<close>, the status code, the status text and the serialized body, whatever
  its code (so a 401 yields a string with \<open>401\<close> in it); without a response, the code
  \<open>ECONNREFUSED\<close> yields the fixed message; any other axios failure yields
  \<open>Request Error: \<close> and its message; any other value yields \<open>Unknown Error: \<close> and its
  string form, which never begins \<open>Request Error: \<close>.
\<close>

theorem handleApiError_decision_table:
  "handleApiError (AxiosError (Some r) code msg)
     = ''API Error: '' @ number_to_string (status r) @ '' - '' @ statusText r @ ''. ''
         @ (case JSON_stringify (data r) of None \<Rightarrow> ''undefined'' | Some s \<Rightarrow> s)
   \<and> (status r = 401 \<longrightarrow>
         (\<exists>rest. handleApiError (AxiosError (Some r) code msg) = ''API Error: '' @ ''401'' @ rest))
   \<and> handleApiError (AxiosError None (Some ''ECONNREFUSED'') msg)
       = ''Connection refused. Check your QUALYS_API_URL configuration.''
   \<and> (code \<noteq> Some ''ECONNREFUSED'' \<longrightarrow>
         handleApiError (AxiosError None code msg) = ''Request Error: '' @ msg)
   \<and> handleApiError (JsError name message)
       = ''Unknown Error: '' @ String_error (JsError name message)
   \<and> handleApiError (Thrown v) = ''Unknown Error: '' @ String_js v
   \<and> take 15 (handleApiError (JsError name message)) \<noteq> ''Request Error: ''
   \<and> take 15 (handleApiError (Thrown v)) \<noteq> ''Request Error: ''"
proof -
  have "number_to_string 401 = ''401''" by code_simp
  then show ?thesis by simp
qed

text \<open>C6, at a 401 response and at a timeout.\<close>

theorem handleApiError_decision_table_witness:
  "status unauthorized_response = 401
   \<and> handleApiError (AxiosError (Some unauthorized_response) (Some ''ERR_BAD_REQUEST'') ''Request failed with status code 401'')
       = ''API Error: 401 - Unauthorized. '' @ [CHR 0x22] @ ''Bad Login/Password'' @ [CHR 0x22]
   \<and> Some ''ETIMEDOUT'' \<noteq> Some ''ECONNREFUSED''
   \<and> handleApiError (AxiosError None (Some ''ETIMEDOUT'') ''timeout of 120000ms exceeded'')
       = ''Request Error: timeout of 120000ms exceeded''"
proof -
  have s: "status unauthorized_response = 401"
    by (simp add: unauthorized_response_def)
  have j: "JSON_stringify (data unauthorized_response) = Some ([CHR 0x22] @ ''Bad Login/Password'' @ [CHR 0x22])"
    unfolding unauthorized_response_def by code_simp
  have n: "number_to_string 401 = ''401''" by code_simp
  have c: "Some ''ETIMEDOUT'' \<noteq> Some ''ECONNREFUSED''" by simp
  have st: "statusText unauthorized_response = ''Unauthorized''"
    by (simp add: unauthorized_response_def)
  show ?thesis
    using s c j n st
      handleApiError_decision_table [of unauthorized_response "Some ''ERR_BAD_REQUEST''"
        "''Request failed with status code 401''"]
      handleApiError_decision_table [of _ "Some ''ETIMEDOUT''" "''timeout of 120000ms exceeded''"]
    by simp
qed

section \<open>Connection manager: results\<close>

lemma getApiClient_cached:
  "apiClient w = Some c \<Longrightarrow> getApiClient cfg w = (c, w)"
  by (simp add: getApiClient_def)

lemma getApiClient_stores:
  "apiClient (snd (getApiClient cfg w)) = Some (fst (getApiClient cfg w))"
  by (simp add: getApiClient_def Let_def split: option.splits)

lemma getApiClient_calls_cached:
  "apiClient w = Some c \<Longrightarrow> getApiClient_calls cfgs w = (replicate (length cfgs) c, w)"
  by (induction cfgs) (simp_all add: getApiClient_cached)

text \<open>
  C8: in a fresh process, any run of \<open>getApiClient\<close> calls returns one and the same handle,
  the one the first call built; a later call, under whatever configuration, returns that
  handle and changes nothing. \<open>axios.create\<close> runs once and the digest is computed at most
  once. The handle has the configured base URL, the two-minute timeout and the pooled
  agents, and, when username and password are set, the \<open>Basic\<close> digest of the first call's
  pair as its \<open>Authorization\<close> header.
\<close>

theorem getApiClient_idempotent:
  "getApiClient_calls (cfg # cfgs) (initial_world t)
     = (replicate (Suc (length cfgs)) (fst (getApiClient cfg (initial_world t))),
        snd (getApiClient cfg (initial_world t)))
   \<and> getApiClient cfg' (snd (getApiClient cfg (initial_world t)))
     = getApiClient cfg (initial_world t)
   \<and> created (snd (getApiClient_calls (cfg # cfgs) (initial_world t))) = 1
   \<and> digests (snd (getApiClient_calls (cfg # cfgs) (initial_world t))) \<le> 1
   \<and> baseURL (fst (getApiClient cfg (initial_world t))) = QUALYS_API_URL cfg
   \<and> timeout (fst (getApiClient cfg (initial_world t))) = 120000
   \<and> clientHttpAgent (fst (getApiClient cfg (initial_world t))) = httpAgent
   \<and> clientHttpsAgent (fst (getApiClient cfg (initial_world t))) = httpsAgent
   \<and> (QUALYS_USERNAME cfg \<noteq> [] \<and> QUALYS_PASSWORD cfg \<noteq> [] \<longrightarrow>
        defaultHeaders (fst (getApiClient cfg (initial_world t)))
          = [(''Authorization'', ''Basic '' @ base64 (QUALYS_USERNAME cfg @ '':'' @ QUALYS_PASSWORD cfg)),
             (''X-Requested-With'', ''qualys-mcp''),
             (''Content-Type'', ''application/x-www-form-urlencoded'')])"
proof -
  let ?r = "getApiClient cfg (initial_world t)"
  have stored: "apiClient (snd ?r) = Some (fst ?r)"
    by (rule getApiClient_stores)
  have calls: "getApiClient_calls (cfg # cfgs) (initial_world t)
     = (replicate (Suc (length cfgs)) (fst ?r), snd ?r)"
  proof -
    obtain c w1 where r: "?r = (c, w1)" by (cases ?r)
    with stored have "apiClient w1 = Some c" by simp
    then have "getApiClient_calls cfgs w1 = (replicate (length cfgs) c, w1)"
      by (rule getApiClient_calls_cached)
    with r show ?thesis by simp
  qed
  have again: "getApiClient cfg' (snd ?r) = ?r"
    by (simp add: getApiClient_cached[OF stored])
  have counts: "created (snd ?r) = 1 \<and> digests (snd ?r) \<le> 1"
    by (simp add: getApiClient_def initial_world_def Let_def)
  have fields: "baseURL (fst ?r) = QUALYS_API_URL cfg \<and> timeout (fst ?r) = 120000
     \<and> clientHttpAgent (fst ?r) = httpAgent \<and> clientHttpsAgent (fst ?r) = httpsAgent"
    by (simp add: getApiClient_def initial_world_def Let_def)
  have hdr: "QUALYS_USERNAME cfg \<noteq> [] \<and> QUALYS_PASSWORD cfg \<noteq> [] \<longrightarrow>
        defaultHeaders (fst ?r)
          = [(''Authorization'', ''Basic '' @ base64 (QUALYS_USERNAME cfg @ '':'' @ QUALYS_PASSWORD cfg)),
             (''X-Requested-With'', ''qualys-mcp''),
             (''Content-Type'', ''application/x-www-form-urlencoded'')]"
    by (simp add: getApiClient_def initial_world_def Let_def)
  from calls again counts fields hdr show ?thesis
    by simp
qed

text \<open>C8, at the sample configuration, with the password changed before the second call.\<close>

theorem getApiClient_idempotent_witness:
  "QUALYS_USERNAME example_config \<noteq> [] \<and> QUALYS_PASSWORD example_config \<noteq> []
   \<and> defaultHeaders (fst (getApiClient example_config (initial_world 1700000000000)))
       = [(''Authorization'', ''Basic dXNlcjpwYXNz''),
          (''X-Requested-With'', ''qualys-mcp''),
          (''Content-Type'', ''application/x-www-form-urlencoded'')]
   \<and> getApiClient (example_config\<lparr> QUALYS_PASSWORD := ''changed'' \<rparr>)
         (snd (getApiClient example_config (initial_world 1700000000000)))
       = getApiClient example_config (initial_world 1700000000000)"
proof -
  have u: "QUALYS_USERNAME example_config \<noteq> [] \<and> QUALYS_PASSWORD example_config \<noteq> []"
    by (simp add: example_config_def)
  have b: "base64 (QUALYS_USERNAME example_config @ '':'' @ QUALYS_PASSWORD example_config)
            = ''dXNlcjpwYXNz''"
    unfolding example_config_def by code_simp
  show ?thesis
    using u b
      getApiClient_idempotent [of example_config "[]" 1700000000000
        "example_config\<lparr> QUALYS_PASSWORD := ''changed'' \<rparr>"]
    by simp
qed

section \<open>Response normalizer: results\<close>


















section \<open>Rate limiter: results\<close>

text \<open>A call that runs alone starts at least the minimum delay after the start before it.\<close>

lemma rateLimitedRequest_spacing:
  "lastRequestTime w + RATE_LIMIT_DELAY_MS
     \<le> lastRequestTime (snd (rateLimitedRequest (\<lambda>w'. ((), w')) w))"
  by (simp add: rateLimitedRequest_def rateLimitDelay_def Let_def)

text \<open>
  C1: three tool calls arrive 100 ms apart in a fresh process. The first starts at once.
  The second and the third both read the start time of the first, ask for timers that
  are due at the same instant, one second after it, and start together: the gap between
  two consecutive starts is 0 ms.
\<close>

theorem overlapping_calls_not_spaced:
  "run [Call 0 1700000000000, Call 1 1700000000100, Call 2 1700000000200,
        Wake 1 1700000001000, Wake 2 1700000001000] initial_loop
     = Some \<lparr> lastTime = 1700000001000, clock = 1700000001000, waiting = [],
              started = [(0, 1700000000000), (1, 1700000001000), (2, 1700000001000)] \<rparr>
   \<and> \<not> spaced (map snd [(0::nat, 1700000000000), (1, 1700000001000), (2, 1700000001000)])"
  by (simp add: initial_loop_def rateLimitDelay_def RATE_LIMIT_DELAY_MS_def)

end
